theory Spec2Isabelle
  imports Complex_Main "HOL-Library.Sublist"
begin

section \<open>PP_EXTRACT: multi-threaded source extraction (pp_extract.py)\<close>

text \<open>
  A shallow embedding of \<^verbatim>\<open>src/pp_extract.py\<close>: the worker thread
  \<^verbatim>\<open>extractor.run\<close> and the coordinator \<^verbatim>\<open>extract_multiframe\<close>.
  Python values are a datatype, dictionaries are maps, exceptions are values of
  \<open>pyerr\<close>, and the threads are run by an explicit schedule (a list of worker
  numbers). A thread's steps are: take a file name from the queue, append the frame's
  dictionary to the result list, process the frame and mark it done; the steps of
  different threads interleave in any order, and the lock, which only guards short
  sections, is not modelled. Line numbers are those of \<^verbatim>\<open>src/pp_extract.py\<close>.
\<close>

subsection \<open>Python values, exceptions and string operations\<close>

text \<open>Header and parameter values: the strings, integers and floats that occur.
  Python floats are modelled as reals; rounding is not modelled.\<close>

datatype pyval = PStr string | PInt int | PFloat real

datatype pyerr =
    IndexError | KeyError | IOError | NameError | UnboundLocalError
  | TypeError | ValueError | AttributeError

text \<open>\<^verbatim>\<open>s.find(sub)\<close>: the index of the first occurrence of \<open>sub\<close> in \<open>s\<close>,
  or \<open>-1\<close> when there is none.\<close>

fun find_at :: "string \<Rightarrow> string \<Rightarrow> nat \<Rightarrow> int" where
  "find_at sub [] i = (if sub = [] then int i else - 1)"
| "find_at sub (c # cs) i =
     (if take (length sub) (c # cs) = sub then int i else find_at sub cs (Suc i))"

definition py_find :: "string \<Rightarrow> string \<Rightarrow> int" where
  "py_find s sub = find_at sub s 0"

text \<open>\<^verbatim>\<open>sub in s\<close> for strings.\<close>

definition py_in :: "string \<Rightarrow> string \<Rightarrow> bool" where
  "py_in sub s = (py_find s sub \<noteq> - 1)"

text \<open>\<^verbatim>\<open>s[:k]\<close>: a negative \<open>k\<close> counts from the end.\<close>

definition py_slice_to :: "string \<Rightarrow> int \<Rightarrow> string" where
  "py_slice_to s k =
     (if k < 0 then take (nat (int (length s) + k)) s else take (nat k) s)"

text \<open>\<^verbatim>\<open>s.split(sep)\<close> for a one-character separator keeps empty fields;
  \<^verbatim>\<open>s.split()\<close> splits at runs of whitespace and drops empty fields.\<close>

fun split_by :: "(char \<Rightarrow> bool) \<Rightarrow> string \<Rightarrow> string \<Rightarrow> string list" where
  "split_by p cur [] = [cur]"
| "split_by p cur (c # cs) =
     (if p c then cur # split_by p [] cs else split_by p (cur @ [c]) cs)"

definition py_split :: "string \<Rightarrow> char \<Rightarrow> string list" where
  "py_split s sep = split_by (\<lambda>c. c = sep) [] s"

definition is_space :: "char \<Rightarrow> bool" where
  "is_space c = (c \<in> set [CHR '' '', CHR 0x09, CHR 0x0A, CHR 0x0B, CHR 0x0C, CHR 0x0D])"

definition py_split_ws :: "string \<Rightarrow> string list" where
  "py_split_ws s = filter (\<lambda>t. t \<noteq> []) (split_by is_space [] s)"

text \<open>\<^verbatim>\<open>xs[i]\<close> for a non-negative literal index: IndexError out of range.\<close>

definition py_index :: "'a list \<Rightarrow> nat \<Rightarrow> pyerr + 'a" where
  "py_index xs i = (if i < length xs then Inr (xs ! i) else Inl IndexError)"

text \<open>\<^verbatim>\<open>','.join(xs)\<close>.\<close>

fun comma_join :: "string list \<Rightarrow> string" where
  "comma_join [] = []"
| "comma_join [x] = x"
| "comma_join (x # y # ys) = x @ '','' @ comma_join (y # ys)"

text \<open>Decimal digits of an integer, as \<^verbatim>\<open>str(n)\<close> and \<^verbatim>\<open>'%d' % n\<close> print it.\<close>

text \<open>The argument is below ten wherever it is used.\<close>

definition digit_char :: "nat \<Rightarrow> char" where
  "digit_char n = ''0123456789'' ! n"

fun dec_nat :: "nat \<Rightarrow> string" where
  "dec_nat n =
     (if n < 10 then [digit_char n]
      else dec_nat (n div 10) @ [digit_char (n mod 10)])"

declare dec_nat.simps [simp del]

definition dec_int :: "int \<Rightarrow> string" where
  "dec_int i = (if i < 0 then ''-'' @ dec_nat (nat (- i)) else dec_nat (nat i))"

text \<open>\<^verbatim>\<open>'%d' % x\<close>: a float is truncated towards zero, a string is a TypeError.\<close>

definition trunc :: "real \<Rightarrow> int" where
  "trunc r = (if 0 \<le> r then \<lfloor>r\<rfloor> else \<lceil>r\<rceil>)"

fun fmt_d :: "pyval \<Rightarrow> pyerr + string" where
  "fmt_d (PInt i) = Inr (dec_int i)"
| "fmt_d (PFloat r) = Inr (dec_int (trunc r))"
| "fmt_d (PStr s) = Inl TypeError"

subsection \<open>The catalog file name (line 82)\<close>

text \<open>\<^verbatim>\<open>ldacname = filename[:filename.find('.fit')]+'.ldac'\<close>\<close>

definition ldac_name :: "string \<Rightarrow> string" where
  "ldac_name filename = py_slice_to filename (py_find filename ''.fit'') @ ''.ldac''"

text \<open>Sequencing of steps that may raise: the first exception ends the sequence.\<close>

definition then_do :: "'e + 'a \<Rightarrow> ('a \<Rightarrow> 'e + 'b) \<Rightarrow> 'e + 'b" where
  "then_do x f = (case x of Inl e \<Rightarrow> Inl e | Inr v \<Rightarrow> f v)"

subsection \<open>Instrument configuration, parameters and the outside world\<close>

type_synonym header = "string \<rightharpoonup> pyval"

text \<open>One entry of \<^verbatim>\<open>_pp_conf.telescope_parameters\<close>, with the keys this module
  reads. \<open>binning\<close> holds \<^verbatim>\<open>binning[0]\<close> and \<^verbatim>\<open>binning[1]\<close>; \<open>mask_files\<close> is
  the dictionary under the key \<^verbatim>\<open>'mask_file'\<close>.\<close>

record obsconf =
  sex_config_file :: string
  obsmidtime_jd :: string
  date_keyword :: string
  exptime :: string
  aprad_default :: pyval
  binning :: "string \<times> string"
  mask_files :: "string \<rightharpoonup> string"

text \<open>\<^verbatim>\<open>parameters['aprad']\<close> is a scalar, a list or a numpy array.\<close>

datatype aprad_val = ApScalar pyval | ApList "pyval list" | ApArray "real list"

text \<open>The \<^verbatim>\<open>parameters\<close> dictionary. Keys that may be absent are options;
  \<open>telescope = None\<close> stands for an absent key and for the value \<^verbatim>\<open>None\<close>.\<close>

record params =
  telescope :: "pyval option"
  obsparam :: "obsconf option"
  aprad :: aprad_val
  aperture_diam :: "string option"
  mask_file :: "string option"
  paramfile :: "string option"
  quiet :: bool
  sex_snr :: real
  source_minarea :: real

datatype catfile = Rows "string list" | Corrupt

text \<open>What launching the external tool does: the launch fails, or the tool runs and
  leaves a catalog file (or none) at the path given by \<^verbatim>\<open>-CATALOG_NAME\<close>. The tool is
  assumed to terminate.\<close>

datatype tool_run = LaunchFails | Runs "catfile option"

text \<open>The collaborators that are not part of this module are parameters: the telescope
  table, the module-level name \<^verbatim>\<open>telescope\<close> (bound only when the module runs as a
  script; \<open>None\<close> is unbound), \<^verbatim>\<open>toolbox.dateobs_to_jd\<close>, the conversions between
  floats and strings, \<^verbatim>\<open>repr\<close> of the parameters, and the external tool as a function
  of its command line.\<close>

record world =
  telescope_parameters :: "string \<rightharpoonup> obsconf"
  telescope_global :: "pyval option option"
  dateobs_to_jd :: "pyval \<Rightarrow> pyerr + real"
  float_of_string :: "string \<Rightarrow> real option"
  str_float :: "real \<Rightarrow> string"
  fmt_f :: "real \<Rightarrow> string"
  repr_parameters :: "params \<Rightarrow> string"
  sextractor :: "string \<Rightarrow> tool_run"

text \<open>\<^verbatim>\<open>str(x)\<close>, \<^verbatim>\<open>float(x)\<close>, \<^verbatim>\<open>x*2\<close> and \<^verbatim>\<open>x + y\<close>.\<close>

fun py_str :: "world \<Rightarrow> pyval \<Rightarrow> string" where
  "py_str w (PStr s) = s"
| "py_str w (PInt i) = dec_int i"
| "py_str w (PFloat r) = str_float w r"

fun py_float :: "world \<Rightarrow> pyval \<Rightarrow> pyerr + real" where
  "py_float w (PStr s) =
     (case float_of_string w s of None \<Rightarrow> Inl ValueError | Some r \<Rightarrow> Inr r)"
| "py_float w (PInt i) = Inr (of_int i)"
| "py_float w (PFloat r) = Inr r"

fun py_double :: "pyval \<Rightarrow> pyval" where
  "py_double (PStr s) = PStr (s @ s)"
| "py_double (PInt i) = PInt (i * 2)"
| "py_double (PFloat r) = PFloat (r * 2)"

fun py_add :: "pyval \<Rightarrow> pyval \<Rightarrow> pyerr + pyval" where
  "py_add (PStr a) (PStr b) = Inr (PStr (a @ b))"
| "py_add (PInt a) (PInt b) = Inr (PInt (a + b))"
| "py_add (PInt a) (PFloat b) = Inr (PFloat (of_int a + b))"
| "py_add (PFloat a) (PInt b) = Inr (PFloat (a + of_int b))"
| "py_add (PFloat a) (PFloat b) = Inr (PFloat (a + b))"
| "py_add _ _ = Inl TypeError"

text \<open>\<^verbatim>\<open>header[key]\<close> and \<^verbatim>\<open>value.split()\<close>.\<close>

definition hdr_get :: "header \<Rightarrow> string \<Rightarrow> pyerr + pyval" where
  "hdr_get h k = (case h k of None \<Rightarrow> Inl KeyError | Some v \<Rightarrow> Inr v)"

fun val_split_ws :: "pyval \<Rightarrow> pyerr + string list" where
  "val_split_ws (PStr s) = Inr (py_split_ws s)"
| "val_split_ws _ = Inl AttributeError"

subsection \<open>Observation mid-time (lines 134--150)\<close>

definition midtime :: "world \<Rightarrow> obsconf \<Rightarrow> header \<Rightarrow> pyerr + pyval" where
  "midtime w oc h =
     (if h (obsmidtime_jd oc) \<noteq> None then hdr_get h (obsmidtime_jd oc)
      else if py_find (date_keyword oc) ''|'' = - 1 then
        then_do (hdr_get h (date_keyword oc)) (\<lambda>d.
        then_do (dateobs_to_jd w d) (\<lambda>jd.
        then_do (hdr_get h (exptime oc)) (\<lambda>t.
        then_do (py_float w t) (\<lambda>T.
        Inr (PFloat (jd + T / 2 / 86400))))))
      else
        then_do (py_index (py_split (date_keyword oc) CHR ''|'') 0) (\<lambda>k0.
        then_do (hdr_get h k0) (\<lambda>d.
        then_do (py_add d (PStr ''T'')) (\<lambda>dT.
        then_do (py_index (py_split (date_keyword oc) CHR ''|'') 1) (\<lambda>k1.
        then_do (hdr_get h k1) (\<lambda>t.
        then_do (py_add dT t) (\<lambda>datetime.
        then_do (dateobs_to_jd w datetime) (\<lambda>jd.
        then_do (hdr_get h (exptime oc)) (\<lambda>e.
        then_do (py_float w e) (\<lambda>T.
        Inr (PFloat (jd + T / 2 / 86400))))))))))))"

subsection \<open>Aperture diameter string (lines 213--224)\<close>

text \<open>\<^verbatim>\<open>[str(float(rad)*2.) for rad in parameters['aprad']]\<close>\<close>

fun diam_list :: "world \<Rightarrow> pyval list \<Rightarrow> pyerr + string list" where
  "diam_list w [] = Inr []"
| "diam_list w (rad # rads) =
     then_do (py_float w rad) (\<lambda>r.
     then_do (diam_list w rads) (\<lambda>ds. Inr (str_float w (r * 2) # ds)))"

text \<open>The result is the exception raised, if any, and the parameters as they are
  then: a scalar radius has been replaced by a list before its conversion can fail.\<close>

definition set_aperture_diam :: "world \<Rightarrow> obsconf \<Rightarrow> params \<Rightarrow> pyerr option \<times> params" where
  "set_aperture_diam w oc par =
     (if aprad par = ApScalar (PFloat 0) \<or> aprad par = ApList [] then
        (None, par\<lparr>aperture_diam := Some (py_str w (py_double (aprad_default oc)))\<rparr>)
      else
        (case aprad par of
           ApList rads \<Rightarrow>
             (case diam_list w rads of
                Inl e \<Rightarrow> (Some e, par)
              | Inr ds \<Rightarrow> (None, par\<lparr>aperture_diam := Some (comma_join ds)\<rparr>))
         | ApArray rs \<Rightarrow>
             (None, par\<lparr>aperture_diam :=
                           Some (comma_join (map (\<lambda>r. str_float w (r * 2)) rs))\<rparr>)
         | ApScalar v \<Rightarrow>
             (let par1 = par\<lparr>aprad := ApList [PStr (py_str w v)]\<rparr> in
              case diam_list w [PStr (py_str w v)] of
                Inl e \<Rightarrow> (Some e, par1)
              | Inr ds \<Rightarrow> (None, par1\<lparr>aperture_diam := Some (comma_join ds)\<rparr>))))"

subsection \<open>Binning and mask file (lines 227--243)\<close>

text \<open>The two binning values, when the branches assign them: \<open>None\<close> is the case
  in which neither \<^verbatim>\<open>binning_x\<close> nor \<^verbatim>\<open>binning_y\<close> is bound.\<close>

definition read_binning :: "world \<Rightarrow> obsconf \<Rightarrow> header \<Rightarrow> pyerr + (pyval \<times> pyval) option" where
  "read_binning w oc h =
     (if py_in ''_'' (fst (binning oc)) then
        (if py_in ''_blank'' (fst (binning oc)) then
           then_do (py_index (py_split (fst (binning oc)) CHR ''_'') 0) (\<lambda>k0.
           then_do (hdr_get h k0) (\<lambda>v0.
           then_do (val_split_ws v0) (\<lambda>parts0.
           then_do (py_index parts0 0) (\<lambda>x.
           then_do (py_float w (PStr x)) (\<lambda>binning_x.
           then_do (py_index (py_split (snd (binning oc)) CHR ''_'') 0) (\<lambda>k1.
           then_do (hdr_get h k1) (\<lambda>v1.
           then_do (val_split_ws v1) (\<lambda>parts1.
           then_do (py_index parts1 1) (\<lambda>y.
           then_do (py_float w (PStr y)) (\<lambda>binning_y.
           Inr (Some (PFloat binning_x, PFloat binning_y))))))))))))
         else Inr None)
      else
        then_do (hdr_get h (fst (binning oc))) (\<lambda>binning_x.
        then_do (hdr_get h (snd (binning oc))) (\<lambda>binning_y.
        Inr (Some (binning_x, binning_y)))))"

definition bin_string :: "world \<Rightarrow> obsconf \<Rightarrow> header \<Rightarrow> pyerr + string" where
  "bin_string w oc h =
     then_do (read_binning w oc h) (\<lambda>b.
       case b of
         None \<Rightarrow> Inl UnboundLocalError
       | Some (binning_x, binning_y) \<Rightarrow>
           then_do (fmt_d binning_x) (\<lambda>sx.
           then_do (fmt_d binning_y) (\<lambda>sy. Inr (sx @ '','' @ sy))))"

definition set_mask_file :: "obsconf \<Rightarrow> string \<Rightarrow> params \<Rightarrow> params" where
  "set_mask_file oc bs par =
     (case mask_files oc bs of
        None \<Rightarrow> par
      | Some m \<Rightarrow> par\<lparr>mask_file := Some m\<rparr>)"

subsection \<open>Shared state: queue, result list, files and log\<close>

datatype log_entry = Info string | Error string | Critical string

text \<open>What the threads share outside the queue: the log, the lines printed, the
  catalog files and the image headers on disk. Only the value of a header card is
  kept, not its comment.\<close>

record env_state =
  logged :: "log_entry list"
  printed :: "string list"
  catalogs :: "string \<rightharpoonup> catfile"
  images :: "string \<rightharpoonup> header"

text \<open>The dictionary \<^verbatim>\<open>out\<close> of one frame; a key not yet set is \<open>None\<close>.\<close>

record out_rec =
  fits_filename :: "string option"
  ldac_filename :: "string option"
  parameters :: "params option"
  catalog_data :: "string list option"
  time :: "pyval option"
  fits_header :: "header option"

text \<open>
  A worker thread is between two queue operations: about to call \<^verbatim>\<open>get\<close>
  (\<open>Idle\<close>), holding a file name it has just taken (\<open>Got\<close>), processing a frame
  whose dictionary is at a given index of the result list (\<open>Busy\<close>), ended by an
  exception raised while processing a frame (\<open>Dead\<close>), or left by \<^verbatim>\<open>break\<close>
  (\<open>Exited\<close>). The flag says whether the local name \<^verbatim>\<open>sex\<close> is bound, which it
  is once a launch has succeeded in this thread.
\<close>

datatype wstate =
    Idle bool
  | Got string bool
  | Busy string nat bool
  | Dead string pyerr
  | Exited

text \<open>\<open>pending\<close> and \<open>unfinished\<close> are the items and the count of unfinished tasks
  of \<^verbatim>\<open>extractQueue\<close>; \<open>output\<close> is the list the workers append to.\<close>

record sys =
  pending :: "string list"
  unfinished :: nat
  "output" :: "out_rec list"
  workers :: "wstate list"
  env :: env_state

definition nThreads :: nat where
  "nThreads = 10"

definition queue_maxsize :: nat where
  "queue_maxsize = 10000"

definition log_add :: "log_entry \<Rightarrow> env_state \<Rightarrow> env_state" where
  "log_add l e = e\<lparr>logged := logged e @ [l]\<rparr>"

definition print_add :: "string \<Rightarrow> env_state \<Rightarrow> env_state" where
  "print_add l e = e\<lparr>printed := printed e @ [l]\<rparr>"

subsection \<open>The worker: \<^verbatim>\<open>extractor.run\<close> (lines 67--177)\<close>

text \<open>Lines 75--85: the dictionary appended to the result list for a file name.\<close>

definition new_out :: "params \<Rightarrow> string \<Rightarrow> out_rec" where
  "new_out par filename =
     \<lparr>fits_filename = Some filename, ldac_filename = Some (ldac_name filename),
      parameters = Some par, catalog_data = None, time = None, fits_header = None\<rparr>"

text \<open>Lines 92--112: the command line.\<close>

definition command_line :: "world \<Rightarrow> params \<Rightarrow> string \<Rightarrow> string \<Rightarrow> pyerr + string" where
  "command_line w par ldacname filename =
     then_do (case aperture_diam par of None \<Rightarrow> Inl KeyError | Some d \<Rightarrow> Inr d) (\<lambda>diam.
       let o1 = '' -PHOT_APERTURES '' @ diam @ '' '';
           o2 = o1 @ '' -BACKPHOTO_TYPE LOCAL '';
           o3 = o2 @ '' -DETECT_MINAREA '' @ fmt_f w (source_minarea par) @ '' '';
           o4 = o3 @ '' -DETECT_THRESH '' @ fmt_f w (sex_snr par) @
                     '' -ANALYSIS_THRESH '' @ fmt_f w (sex_snr par) @ '' '';
           o5 = o4 @ '' -CATALOG_NAME '' @ ldacname @ '' '';
           o6 = (case mask_file par of
                   None \<Rightarrow> o5
                 | Some m \<Rightarrow> o5 @ '' -WEIGHT_TYPE MAP_WEIGHT'' @ '' -WEIGHT_IMAGE '' @ m);
           optionstring = (case paramfile par of
                   None \<Rightarrow> o6
                 | Some p \<Rightarrow> o6 @ '' -PARAMETERS_NAME '' @ p)
       in then_do (case obsparam par of None \<Rightarrow> Inl KeyError | Some oc \<Rightarrow> Inr oc) (\<lambda>oc.
            Inr (''sex -c '' @ sex_config_file oc @ '' '' @ optionstring @ '' '' @ filename)))"

text \<open>Modelled from the spec: the catalog reader \<^verbatim>\<open>catalog.read_ldac\<close> is not part
  of this module; it returns the rows of the file and fails if the file is missing or
  corrupt.\<close>

definition read_ldac :: "env_state \<Rightarrow> string \<Rightarrow> pyerr + string list" where
  "read_ldac e path =
     (case catalogs e path of
        None \<Rightarrow> Inl IOError
      | Some Corrupt \<Rightarrow> Inl IOError
      | Some (Rows rows) \<Rightarrow> Inr rows)"

text \<open>Line 153: the value of the card \<^verbatim>\<open>APRAD\<close>. A float cannot be iterated over; a
  string is iterated over by character.\<close>

fun aprad_card :: "world \<Rightarrow> aprad_val \<Rightarrow> pyerr + string" where
  "aprad_card w (ApList vs) = Inr (comma_join (map (py_str w) vs))"
| "aprad_card w (ApArray rs) = Inr (comma_join (map (str_float w) rs))"
| "aprad_card w (ApScalar (PStr s)) = Inr (comma_join (map (\<lambda>c. [c]) s))"
| "aprad_card w (ApScalar _) = Inl TypeError"

text \<open>
  Lines 88--175 for one frame, given whether \<^verbatim>\<open>sex\<close> is bound, the file name and
  the frame's dictionary. The result is the exception that ended the thread, if any,
  whether \<^verbatim>\<open>sex\<close> is bound afterwards, the dictionary and the files and log as
  they are then. A failed launch is logged and execution goes on to \<^verbatim>\<open>sex.wait()\<close>.
\<close>

definition run_job ::
  "world \<Rightarrow> params \<Rightarrow> bool \<Rightarrow> string \<Rightarrow> out_rec \<Rightarrow> env_state \<Rightarrow>
     pyerr option \<times> bool \<times> out_rec \<times> env_state" where
  "run_job w par sex_bound filename out e0 =
     (let ldacname = ldac_name filename;
          e1 = e0\<lparr>catalogs := (catalogs e0)(ldacname := None)\<rparr>
      in case command_line w par ldacname filename of
           Inl err \<Rightarrow> (Some err, sex_bound, out, e1)
         | Inr commandline \<Rightarrow>
      (let (sex_bound1, e2) =
             (case sextractor w commandline of
                LaunchFails \<Rightarrow>
                  (sex_bound, log_add (Error ''cannot call Source Extractor'') e1)
              | Runs c \<Rightarrow> (True, e1\<lparr>catalogs := (catalogs e1)(ldacname := c)\<rparr>))
       in if \<not> sex_bound1 then (Some UnboundLocalError, sex_bound1, out, e2)
          else case read_ldac e2 ldacname of
            Inl err \<Rightarrow> (Some err, sex_bound1, out, e2)
          | Inr ldac_data \<Rightarrow>
       (let out1 = out\<lparr>catalog_data := Some ldac_data\<rparr>
        in case images e2 filename of
             None \<Rightarrow> (Some IOError, sex_bound1, out1, e2)
           | Some hdr \<Rightarrow>
        (case obsparam par of
           None \<Rightarrow> (Some KeyError, sex_bound1, out1, e2)
         | Some oc \<Rightarrow>
        (case midtime w oc hdr of
           Inl err \<Rightarrow> (Some err, sex_bound1, out1, e2)
         | Inr midtimjd \<Rightarrow>
        (let out2 = out1\<lparr>time := Some midtimjd\<rparr>
         in case aprad_card w (aprad par) of
              Inl err \<Rightarrow> (Some err, sex_bound1, out2, e2)
            | Inr apstr \<Rightarrow>
         (let hdr1 = hdr(''APRAD'' \<mapsto> PStr apstr, ''SEXSNR'' \<mapsto> PFloat (sex_snr par),
                         ''SEXAREA'' \<mapsto> PFloat (source_minarea par));
              out3 = out2\<lparr>fits_header := Some hdr1\<rparr>;
              e3 = e2\<lparr>images := (images e2)(filename \<mapsto> hdr1)\<rparr>;
              line = dec_nat (length ldac_data) @ '' sources extracted from frame '' @
                       filename;
              e4 = log_add (Info line) e3;
              e5 = (if \<not> quiet par then print_add line e4 else e4)
          in (None, sex_bound1, out3, e5))))))))"

text \<open>
  One step of worker \<open>i\<close>. \<^verbatim>\<open>get\<close> takes the head of the queue, or the thread leaves
  the loop when the queue is empty; a thread holding a file name appends its dictionary;
  a busy thread processes its frame and then either calls \<^verbatim>\<open>task_done\<close> or has
  died. \<^verbatim>\<open>task_done\<close> raises ValueError when no task is unfinished.
\<close>

definition wstep :: "world \<Rightarrow> params \<Rightarrow> nat \<Rightarrow> sys \<Rightarrow> sys" where
  "wstep w par i s =
     (if i < length (workers s) then
        (case workers s ! i of
           Idle b \<Rightarrow>
             (case pending s of
                [] \<Rightarrow> s\<lparr>workers := (workers s)[i := Exited]\<rparr>
              | filename # rest \<Rightarrow>
                  s\<lparr>pending := rest, workers := (workers s)[i := Got filename b]\<rparr>)
         | Got filename b \<Rightarrow>
             s\<lparr>output := output s @ [new_out par filename],
               workers := (workers s)[i := Busy filename (length (output s)) b]\<rparr>
         | Busy filename k b \<Rightarrow>
             (case run_job w par b filename (output s ! k) (env s) of
                (Some err, b1, out1, e1) \<Rightarrow>
                  s\<lparr>output := (output s)[k := out1], env := e1,
                    workers := (workers s)[i := Dead filename err]\<rparr>
              | (None, b1, out1, e1) \<Rightarrow>
                  (if unfinished s = 0 then
                     s\<lparr>output := (output s)[k := out1], env := e1,
                       workers := (workers s)[i := Dead filename ValueError]\<rparr>
                   else
                     s\<lparr>output := (output s)[k := out1], env := e1,
                       unfinished := unfinished s - 1,
                       workers := (workers s)[i := Idle b1]\<rparr>))
         | Dead filename err \<Rightarrow> s
         | Exited \<Rightarrow> s)
      else s)"

text \<open>The threads run in the order a schedule gives.\<close>

definition exec :: "world \<Rightarrow> params \<Rightarrow> nat list \<Rightarrow> sys \<Rightarrow> sys" where
  "exec w par sched s = foldl (\<lambda>t i. wstep w par i t) s sched"

subsection \<open>The coordinator: \<^verbatim>\<open>extract_multiframe\<close> (lines 180--281)\<close>

datatype retval = RDict_empty | RList "out_rec list"

text \<open>The call raises, returns, or has not returned: \<open>Waits\<close> is the coordinator
  blocked in the loop that fills a full queue or in \<^verbatim>\<open>extractQueue.join()\<close>. Each
  carries the parameters dictionary and the shared state as they are then.\<close>

datatype outcome =
    Raises pyerr params sys
  | Returns retval params sys
  | Waits params sys

definition quote :: string where
  "quote = [CHR 0x27]"

text \<open>Lines 196--211: the telescope and its configuration.\<close>

definition resolve_telescope ::
  "world \<Rightarrow> string \<Rightarrow> header \<Rightarrow> params \<Rightarrow> sys \<Rightarrow>
     outcome + obsconf \<times> params \<times> sys" where
  "resolve_telescope w first hdr par s =
     then_do
       (if telescope par = None then
          (case hdr ''TEL_KEYW'' of
             None \<Rightarrow>
               Inl (Returns RDict_empty par
                 (s\<lparr>env :=
                     print_add (''ERROR: TEL_KEYW not in image header;'' @
                                ''has this image run through register?'')
                       (log_add (Critical (''ERROR: TEL_KEYW not in image header ('' @
                                           first @ '')'')) (env s))\<rparr>))
           | Some v \<Rightarrow> Inr (par\<lparr>telescope := Some v\<rparr>))
        else Inr par)
       (\<lambda>par1.
          case (case telescope par1 of
                  Some (PStr name) \<Rightarrow> telescope_parameters w name
                | _ \<Rightarrow> None) of
            Some oc \<Rightarrow> Inr (oc, par1\<lparr>obsparam := Some oc\<rparr>, s)
          | None \<Rightarrow>
              (case telescope_global w of
                 None \<Rightarrow> Inl (Raises NameError par1 s)
               | Some g \<Rightarrow>
                   (let msg = ''ERROR: telescope '' @ quote @
                                (case g of None \<Rightarrow> ''None'' | Some v \<Rightarrow> py_str w v) @
                                quote @ '' is unknown.''
                    in Inl (Returns RDict_empty par1
                         (s\<lparr>env := log_add (Critical msg) (print_add msg (env s))\<rparr>)))))"

text \<open>Lines 251--257: the queue is filled before any thread is started, so a full
  queue (\<^verbatim>\<open>full()\<close> compares the number of items with the capacity) is never
  emptied and the loop does not end; the result is \<open>False\<close> then.\<close>

fun populate :: "string list \<Rightarrow> sys \<Rightarrow> bool \<times> sys" where
  "populate [] s = (True, s)"
| "populate (filename # rest) s =
     (if length (pending s) = queue_maxsize then (False, s)
      else populate rest
             (s\<lparr>pending := pending s @ [filename], unfinished := Suc (unfinished s)\<rparr>))"

text \<open>Lines 188--262: everything up to the call of \<^verbatim>\<open>join\<close>. The result is the
  outcome of the call if it ends here, or the parameters and state with the queue filled
  and the threads started. The threads of earlier calls are taken to have ended: the
  threads of the state are those of this call.\<close>

definition batch_setup ::
  "world \<Rightarrow> string list \<Rightarrow> params \<Rightarrow> sys \<Rightarrow> outcome + params \<times> sys" where
  "batch_setup w filenames par s =
     (let s1 = s\<lparr>env :=
                  log_add (Info (''extraction parameters: '' @ repr_parameters w par))
                    (log_add (Info (''extract sources from '' @ dec_nat (length filenames) @
                                    '' files using Source Extractor'')) (env s))\<rparr>
      in case filenames of
           [] \<Rightarrow> Inl (Raises IndexError par s1)
         | first # _ \<Rightarrow>
      (case images (env s1) first of
         None \<Rightarrow> Inl (Raises IOError par s1)
       | Some hdr \<Rightarrow>
      then_do (resolve_telescope w first hdr par s1) (\<lambda>(oc, par1, s2).
      (case set_aperture_diam w oc par1 of
         (Some err, par2) \<Rightarrow> Inl (Raises err par2 s2)
       | (None, par2) \<Rightarrow>
      (case bin_string w oc hdr of
         Inl err \<Rightarrow> Inl (Raises err par2 s2)
       | Inr bs \<Rightarrow>
      (let par3 = set_mask_file oc bs par2
       in case populate filenames (s2\<lparr>output := []\<rparr>) of
            (False, s3) \<Rightarrow> Inl (Waits par3 s3)
          | (True, s3) \<Rightarrow>
              Inr (par3,
                   s3\<lparr>workers :=
                        replicate (min nThreads (length filenames)) (Idle False)\<rparr>)))))))"

text \<open>The whole call under a schedule of the threads: \<^verbatim>\<open>join\<close> returns when no
  task is unfinished, and the result list is returned.\<close>

definition extract_multiframe ::
  "world \<Rightarrow> nat list \<Rightarrow> string list \<Rightarrow> params \<Rightarrow> sys \<Rightarrow> outcome" where
  "extract_multiframe w sched filenames par s =
     (case batch_setup w filenames par s of
        Inl out \<Rightarrow> out
      | Inr (par1, s1) \<Rightarrow>
          (let s2 = exec w par1 sched s1
           in if unfinished s2 = 0 then Returns (RList (output s2)) par1 s2
              else Waits par1 s2))"

text \<open>The parts of the result of \<open>run_job\<close>.\<close>

definition job_err :: "pyerr option \<times> bool \<times> out_rec \<times> env_state \<Rightarrow> pyerr option" where
  "job_err r = fst r"

definition job_out :: "pyerr option \<times> bool \<times> out_rec \<times> env_state \<Rightarrow> out_rec" where
  "job_out r = fst (snd (snd r))"

definition job_sex :: "pyerr option \<times> bool \<times> out_rec \<times> env_state \<Rightarrow> bool" where
  "job_sex r = fst (snd r)"

definition job_env :: "pyerr option \<times> bool \<times> out_rec \<times> env_state \<Rightarrow> env_state" where
  "job_env r = snd (snd (snd r))"

text \<open>The parts of an outcome.\<close>

fun returned :: "outcome \<Rightarrow> retval option" where
  "returned (Returns r par s) = Some r"
| "returned (Raises err par s) = None"
| "returned (Waits par s) = None"

fun raised :: "outcome \<Rightarrow> pyerr option" where
  "raised (Raises err par s) = Some err"
| "raised (Returns r par s) = None"
| "raised (Waits par s) = None"

fun final_sys :: "outcome \<Rightarrow> sys" where
  "final_sys (Raises err par s) = s"
| "final_sys (Returns r par s) = s"
| "final_sys (Waits par s) = s"

fun final_params :: "outcome \<Rightarrow> params" where
  "final_params (Raises err par s) = par"
| "final_params (Returns r par s) = par"
| "final_params (Waits par s) = par"

subsection \<open>Vocabulary of the properties\<close>

text \<open>A thread holds a job in flight when it has taken a file name from the queue and
  has not called \<^verbatim>\<open>task_done\<close> for it.\<close>

fun holds_job :: "wstate \<Rightarrow> bool" where
  "holds_job (Idle b) = False"
| "holds_job (Got filename b) = True"
| "holds_job (Busy filename k b) = True"
| "holds_job (Dead filename err) = True"
| "holds_job Exited = False"

definition in_flight :: "wstate list \<Rightarrow> nat" where
  "in_flight ws = length (filter holds_job ws)"

text \<open>Threads that have taken a file name and not yet appended its dictionary.\<close>

fun is_got :: "wstate \<Rightarrow> bool" where
  "is_got (Got filename b) = True"
| "is_got (Idle b) = False"
| "is_got (Busy filename k b) = False"
| "is_got (Dead filename err) = False"
| "is_got Exited = False"

definition got_count :: "wstate list \<Rightarrow> nat" where
  "got_count ws = length (filter is_got ws)"

text \<open>Three invariants of the threads' steps: the count of unfinished tasks is the
  number of pending items plus the jobs in flight; every file name is pending, held by a
  thread that has not yet appended its dictionary, or has a dictionary in the result
  list; and the index a busy thread holds is that of its frame's dictionary in the result
  list, where a dead thread's frame has left its dictionary.\<close>

definition queue_inv :: "sys \<Rightarrow> bool" where
  "queue_inv s = (unfinished s = length (pending s) + in_flight (workers s))"

definition count_inv :: "nat \<Rightarrow> sys \<Rightarrow> bool" where
  "count_inv n s = (length (output s) + length (pending s) + got_count (workers s) = n)"

fun has_record :: "out_rec list \<Rightarrow> wstate \<Rightarrow> bool" where
  "has_record out (Busy filename k b) =
     (k < length out \<and> map fits_filename out ! k = Some filename)"
| "has_record out (Dead filename err) = (Some filename \<in> set (map fits_filename out))"
| "has_record out (Idle b) = True"
| "has_record out (Got filename b) = True"
| "has_record out Exited = True"

definition named_inv :: "sys \<Rightarrow> bool" where
  "named_inv s = list_all (has_record (output s)) (workers s)"

text \<open>The local name \<^verbatim>\<open>sex\<close> is not bound in a thread.\<close>

fun sex_unbound :: "wstate \<Rightarrow> bool" where
  "sex_unbound (Idle b) = (\<not> b)"
| "sex_unbound (Got filename b) = (\<not> b)"
| "sex_unbound (Busy filename k b) = (\<not> b)"
| "sex_unbound (Dead filename err) = True"
| "sex_unbound Exited = True"

text \<open>The queue is drained: nothing pending, no unfinished task, no job in flight. This
  is the state of the module when it is loaded and after every call that returns.\<close>

definition drained :: "sys \<Rightarrow> bool" where
  "drained s = (pending s = [] \<and> unfinished s = 0 \<and> in_flight (workers s) = 0)"

text \<open>The telescope identifier a batch uses: the one given, else the value of
  \<^verbatim>\<open>TEL_KEYW\<close> in the first image; and its entry in the table.\<close>

definition telescope_id :: "params \<Rightarrow> header \<Rightarrow> pyval option" where
  "telescope_id par hdr = (case telescope par of None \<Rightarrow> hdr ''TEL_KEYW'' | Some t \<Rightarrow> Some t)"

fun telescope_entry :: "world \<Rightarrow> pyval \<Rightarrow> obsconf option" where
  "telescope_entry w (PStr name) = telescope_parameters w name"
| "telescope_entry w (PInt i) = None"
| "telescope_entry w (PFloat r) = None"

subsection \<open>Example batches\<close>

text \<open>A table of three instruments: one with direct binning keys and a combined
  date-time key, one with composite \<^verbatim>\<open>_blank\<close> binning keys and a date key in two
  parts, and one whose binning keys contain an underscore of their own.\<close>

definition ex_conf :: obsconf where
  "ex_conf = \<lparr>sex_config_file = ''vatt4k.sex'', obsmidtime_jd = ''MIDTIMJD'',
     date_keyword = ''DATE-OBS'', exptime = ''EXPTIME'', aprad_default = PInt 4,
     binning = (''CCDBIN1'', ''CCDBIN2''), mask_files = [''2,2'' \<mapsto> ''mask_2x2.fits'']\<rparr>"

definition ex_conf_split :: obsconf where
  "ex_conf_split = \<lparr>sex_config_file = ''lowell31.sex'', obsmidtime_jd = ''MIDTIMJD'',
     date_keyword = ''DATE|UT'', exptime = ''EXPTIME'', aprad_default = PFloat 2.5,
     binning = (''CCDSUM_blank0'', ''CCDSUM_blank1''), mask_files = Map.empty\<rparr>"

definition ex_conf_under :: obsconf where
  "ex_conf_under = \<lparr>sex_config_file = ''arc35.sex'', obsmidtime_jd = ''JD-MID'',
     date_keyword = ''DATE-OBS'', exptime = ''EXPTIME'', aprad_default = PInt 4,
     binning = (''BIN_X'', ''BIN_Y''), mask_files = Map.empty\<rparr>"

text \<open>The world of the examples, for a given behaviour of the external tool; the module
  runs as a script without the option \<^verbatim>\<open>-telescope\<close>.\<close>

definition ex_world :: "(string \<Rightarrow> tool_run) \<Rightarrow> world" where
  "ex_world tool = \<lparr>telescope_parameters =
       [''VATT4K'' \<mapsto> ex_conf, ''LOWELL31'' \<mapsto> ex_conf_split, ''ARC35'' \<mapsto> ex_conf_under],
     telescope_global = Some None,
     dateobs_to_jd =
       (\<lambda>v. if v = PStr ''2016-01-01T00:00:00'' then Inr 2457388.5 else Inl ValueError),
     float_of_string =
       (\<lambda>s. if s = ''3.5'' then Some 3.5 else if s = ''2'' then Some 2 else None),
     str_float = (\<lambda>r. if r = 7 then ''7.0'' else if r = 5 then ''5.0''
                      else if r = 2 then ''2.0'' else if r = 3.5 then ''3.5'' else ''?''),
     fmt_f = (\<lambda>r. if r = 3 then ''3.000000'' else ''1.500000''),
     repr_parameters = (\<lambda>p. ''{}''),
     sextractor = tool\<rparr>"

definition tool_ok :: "string \<Rightarrow> tool_run" where
  "tool_ok c = Runs (Some (Rows [''source 1'', ''source 2'']))"

definition tool_corrupt :: "string \<Rightarrow> tool_run" where
  "tool_corrupt c = Runs (Some Corrupt)"

definition tool_absent :: "string \<Rightarrow> tool_run" where
  "tool_absent c = LaunchFails"

definition ex_header :: header where
  "ex_header = [''TEL_KEYW'' \<mapsto> PStr ''VATT4K'',
     ''DATE-OBS'' \<mapsto> PStr ''2016-01-01T00:00:00'',
     ''DATE'' \<mapsto> PStr ''2016-01-01'', ''UT'' \<mapsto> PStr ''00:00:00'',
     ''JD-MID'' \<mapsto> PFloat 2457388.75,
     ''EXPTIME'' \<mapsto> PFloat 60, ''CCDBIN1'' \<mapsto> PInt 2, ''CCDBIN2'' \<mapsto> PInt 2,
     ''CCDSUM'' \<mapsto> PStr ''2 2'', ''BIN_X'' \<mapsto> PInt 2, ''BIN_Y'' \<mapsto> PInt 2]"

definition ex_env :: env_state where
  "ex_env = \<lparr>logged = [], printed = [], catalogs = Map.empty,
     images = [''a.fits'' \<mapsto> ex_header]\<rparr>"

text \<open>The module as loaded: an empty queue and no threads.\<close>

definition ex_sys :: sys where
  "ex_sys = \<lparr>pending = [], unfinished = 0, output = [], workers = [], env = ex_env\<rparr>"

definition ex_params :: params where
  "ex_params = \<lparr>telescope = None, obsparam = None, aprad = ApList [PFloat 3.5],
     aperture_diam = None, mask_file = None, paramfile = None, quiet = True,
     sex_snr = 1.5, source_minarea = 3\<rparr>"

text \<open>The same with an image whose header has no cards.\<close>

definition ex_sys_untagged :: sys where
  "ex_sys_untagged = ex_sys\<lparr>env := ex_env\<lparr>images := [''a.fits'' \<mapsto> Map.empty]\<rparr>\<rparr>"

text \<open>The parameters and the state of the batch \<^verbatim>\<open>['a.fits']\<close> when its thread has
  been started.\<close>

definition ex_ready :: params where
  "ex_ready = ex_params\<lparr>telescope := Some (PStr ''VATT4K''), obsparam := Some ex_conf,
     aperture_diam := Some ''7.0'', mask_file := Some ''mask_2x2.fits''\<rparr>"

definition ex_started :: sys where
  "ex_started = \<lparr>pending = [''a.fits''], unfinished = 1, output = [],
     workers = [Idle False],
     env = ex_env\<lparr>logged :=
       [Info ''extract sources from 1 files using Source Extractor'',
        Info ''extraction parameters: {}'']\<rparr>\<rparr>"

text \<open>One frame processed for the instrument \<open>oc\<close>, the tool running well.\<close>

definition ex_job :: "obsconf \<Rightarrow> pyerr option \<times> bool \<times> out_rec \<times> env_state" where
  "ex_job oc = run_job (ex_world tool_ok) (ex_ready\<lparr>obsparam := Some oc\<rparr>) False ''a.fits''
     (new_out (ex_ready\<lparr>obsparam := Some oc\<rparr>) ''a.fits'') ex_env"

text \<open>The state of that batch when its thread has taken the file name and appended the
  dictionary.\<close>

definition ex_busy :: sys where
  "ex_busy = ex_started\<lparr>pending := [], output := [new_out ex_ready ''a.fits''],
     workers := [Busy ''a.fits'' 0 False]\<rparr>"

section \<open>Properties\<close>

subsection \<open>Evaluation of the examples\<close>

lemma log_add_fields [simp]:
  "images (log_add l e) = images e" "catalogs (log_add l e) = catalogs e"
  "printed (log_add l e) = printed e" "logged (log_add l e) = logged e @ [l]"
  by (simp_all add: log_add_def)

lemma print_add_fields [simp]:
  "images (print_add l e) = images e" "catalogs (print_add l e) = catalogs e"
  "printed (print_add l e) = printed e @ [l]" "logged (print_add l e) = logged e"
  by (simp_all add: print_add_def)

lemma ex_world_fields:
  "telescope_global (ex_world tool) = Some None"
  "repr_parameters (ex_world tool) p = ''{}''"
  "sextractor (ex_world tool) = tool"
  "telescope_parameters (ex_world tool) ''VATT4K'' = Some ex_conf"
  "telescope_parameters (ex_world tool) ''LOWELL31'' = Some ex_conf_split"
  "telescope_parameters (ex_world tool) ''ARC35'' = Some ex_conf_under"
  "telescope_parameters (ex_world tool) ''XYZ'' = None"
  by (simp_all add: ex_world_def)

lemma ex_sys_fields:
  "env ex_sys = ex_env" "pending ex_sys = []" "unfinished ex_sys = 0"
  "workers ex_sys = []" "output ex_sys = []"
  "images ex_env ''a.fits'' = Some ex_header"
  by (simp_all add: ex_sys_def ex_env_def)

subsection \<open>The catalog file name\<close>

lemma fit_no_overlap:
  assumes t: "take (length ''.fit'') (c # cs @ ''.fit'' @ rest) = ''.fit''"
  shows "sublist ''.fit'' (c # cs)"
proof (cases cs)
  case Nil
  with t show ?thesis by simp
next
  case (Cons a as)
  note c1 = Cons
  show ?thesis
  proof (cases as)
    case Nil
    with t c1 show ?thesis by simp
  next
    case (Cons b bs)
    note c2 = Cons
    show ?thesis
    proof (cases bs)
      case Nil
      with t c1 c2 show ?thesis by simp
    next
      case (Cons d ds)
      with t c1 c2 have "c # cs = [] @ ''.fit'' @ ds" by simp
      then show ?thesis unfolding sublist_def by blast
    qed
  qed
qed

lemma find_at_first:
  "\<not> sublist ''.fit'' base \<Longrightarrow>
     find_at ''.fit'' (base @ ''.fit'' @ rest) i = int (i + length base)"
proof (induction base arbitrary: i)
  case Nil
  then show ?case by simp
next
  case (Cons c cs)
  have ns: "\<not> sublist ''.fit'' cs"
    using Cons.prems(1) by (auto simp: sublist_Cons_right)
  have np: "take (length ''.fit'') (c # cs @ ''.fit'' @ rest) \<noteq> ''.fit''"
    using fit_no_overlap[of c cs rest] Cons.prems by blast
  have "find_at ''.fit'' ((c # cs) @ ''.fit'' @ rest) i =
          find_at ''.fit'' (cs @ ''.fit'' @ rest) (Suc i)"
    using np by (simp only: append_Cons find_at.simps if_False)
  then show ?case using Cons.IH[OF ns, of "Suc i"] by simp
qed

text \<open>Processing a frame never changes the three keys set when the dictionary was
  created.\<close>

lemma run_job_keeps:
  "run_job w par b f out e = (r, b1, out1, e1) \<Longrightarrow>
     fits_filename out1 = fits_filename out \<and> ldac_filename out1 = ldac_filename out
     \<and> parameters out1 = parameters out"
  by (auto simp: run_job_def Let_def split: sum.splits option.splits prod.splits if_splits)

lemma job_out_keeps:
  "fits_filename (job_out (run_job w par b f out e)) = fits_filename out
   \<and> ldac_filename (job_out (run_job w par b f out e)) = ldac_filename out"
proof -
  obtain r b1 out1 e1 where rj: "run_job w par b f out e = (r, b1, out1, e1)"
    by (metis prod_cases4)
  show ?thesis using run_job_keeps[OF rj] rj by (simp add: job_out_def)
qed

text \<open>
  C4, as stated: for a file name \<open>base @ suffix\<close> with an image suffix, the catalog
  path is \<open>base @ ''.ldac''\<close> and nothing else changes. This fails for
  \<^verbatim>\<open>a.fit.fits\<close>: the name is cut at the first \<^verbatim>\<open>.fit\<close>, so the catalog path is
  \<^verbatim>\<open>a.ldac\<close>, not \<^verbatim>\<open>a.fit.ldac\<close>.
\<close>

theorem ldac_name_suffix_counterexample:
  "ldac_name (''a.fit'' @ ''.fits'') \<noteq> ''a.fit'' @ ''.ldac''"
  by (simp add: ldac_name_def py_find_def py_slice_to_def)

text \<open>
  C4, amended: for every file name in which \<^verbatim>\<open>.fit\<close> occurs, the catalog path
  recorded for the frame is the part of the name before the first occurrence of
  \<^verbatim>\<open>.fit\<close> followed by \<^verbatim>\<open>.ldac\<close>: if \<^verbatim>\<open>.fit\<close> does not occur in \<open>base\<close>, the path for
  \<open>base @ ''.fit'' @ rest\<close> is \<open>base @ ''.ldac''\<close>, in the dictionary when it is created
  and after the frame has been processed. It is a function of the file name alone.
\<close>

theorem ldac_name_first_fit:
  assumes "\<not> sublist ''.fit'' base"
  shows "ldac_name (base @ ''.fit'' @ rest) = base @ ''.ldac''
       \<and> ldac_filename (new_out par (base @ ''.fit'' @ rest)) = Some (base @ ''.ldac'')
       \<and> ldac_filename (job_out (run_job w par b (base @ ''.fit'' @ rest)
             (new_out par (base @ ''.fit'' @ rest)) e)) = Some (base @ ''.ldac'')"
proof -
  have n: "ldac_name (base @ ''.fit'' @ rest) = base @ ''.ldac''"
    using find_at_first[OF assms, of rest 0]
    by (simp add: ldac_name_def py_find_def py_slice_to_def)
  then have o: "ldac_filename (new_out par (base @ ''.fit'' @ rest)) = Some (base @ ''.ldac'')"
    by (simp add: new_out_def)
  show ?thesis using n o job_out_keeps by simp
qed

theorem ldac_name_first_fit_witness:
  "\<not> sublist ''.fit'' ''img''
   \<and> ldac_name ''img.fits'' = ''img.ldac''
   \<and> ldac_filename (new_out ex_params ''img.fits'') = Some ''img.ldac''"
proof -
  have h: "\<not> sublist ''.fit'' ''img''" by (simp add: sublist_Cons_right)
  show ?thesis using h ldac_name_first_fit[OF h, of "''s''" ex_params] by simp
qed

subsection \<open>Invariants of the threads and of the set-up\<close>

lemma filter_update_count:
  "i < length xs \<Longrightarrow>
     length (filter P (xs[i := y])) + (if P (xs ! i) then 1 else 0)
       = length (filter P xs) + (if P y then 1 else 0)"
proof (induction xs arbitrary: i)
  case Nil
  then show ?case by simp
next
  case (Cons x xs)
  then show ?case by (cases i) auto
qed

lemma in_flight_update:
  "i < length ws \<Longrightarrow>
     in_flight (ws[i := y]) + (if holds_job (ws ! i) then 1 else 0)
       = in_flight ws + (if holds_job y then 1 else 0)"
  unfolding in_flight_def by (rule filter_update_count)

lemma got_count_update:
  "i < length ws \<Longrightarrow>
     got_count (ws[i := y]) + (if is_got (ws ! i) then 1 else 0)
       = got_count ws + (if is_got y then 1 else 0)"
  unfolding got_count_def by (rule filter_update_count)

lemma wstep_queue_inv: "queue_inv s \<Longrightarrow> queue_inv (wstep w par i s)"
proof (cases "i < length (workers s)")
  case False
  then show "queue_inv s \<Longrightarrow> ?thesis" by (simp add: wstep_def)
next
  case True
  assume inv: "queue_inv s"
  note upd = in_flight_update[OF True]
  show ?thesis
  proof (cases "workers s ! i")
    case (Idle b)
    then show ?thesis using inv True upd[of Exited] upd[of "Got (hd (pending s)) b"]
      by (auto simp: wstep_def queue_inv_def split: list.splits)
  next
    case (Got f b)
    then show ?thesis using inv True upd[of "Busy f (length (output s)) b"]
      by (auto simp: wstep_def queue_inv_def)
  next
    case (Busy f k b)
    obtain r b1 out1 e1 where rj: "run_job w par b f (output s ! k) (env s) = (r, b1, out1, e1)"
      by (metis prod_cases4)
    show ?thesis
    proof (cases r)
      case None
      then show ?thesis using inv True Busy rj upd[of "Dead f ValueError"] upd[of "Idle b1"]
        by (auto simp: wstep_def queue_inv_def)
    next
      case (Some err)
      then show ?thesis using inv True Busy rj upd[of "Dead f err"]
        by (auto simp: wstep_def queue_inv_def)
    qed
  next
    case (Dead f err)
    then show ?thesis using inv True by (simp add: wstep_def)
  next
    case Exited
    then show ?thesis using inv True by (simp add: wstep_def)
  qed
qed

lemma exec_Nil: "exec w par [] s = s"
  by (simp add: exec_def)
lemma exec_Cons: "exec w par (i # sched) s = exec w par sched (wstep w par i s)"
  by (simp add: exec_def)
lemma exec_snoc: "exec w par (sched @ [i]) s = wstep w par i (exec w par sched s)"
  by (simp add: exec_def)

lemma exec_queue_inv: "queue_inv s \<Longrightarrow> queue_inv (exec w par sched s)"
  by (induction sched arbitrary: s) (simp_all add: exec_Nil exec_Cons wstep_queue_inv)


lemma map_fits_update:
  "fits_filename y = fits_filename (xs ! k) \<Longrightarrow>
     map fits_filename (xs[k := y]) = map fits_filename xs"
proof (cases "k < length xs")
  case True
  assume "fits_filename y = fits_filename (xs ! k)"
  then show ?thesis using True by (simp add: map_update list_update_same_conv)
next
  case False
  then show ?thesis by (simp add: list_update_beyond)
qed

lemma list_all_update:
  "list_all P xs \<Longrightarrow> P y \<Longrightarrow> list_all P (xs[i := y])"
  using set_update_subset_insert[of xs i y] by (auto simp: list_all_iff)

lemma has_record_cong:
  "map fits_filename out' = map fits_filename out \<Longrightarrow> has_record out' ws = has_record out ws"
  by (cases ws) (auto dest: map_eq_imp_length_eq)

lemma has_record_append:
  "has_record out ws \<Longrightarrow> has_record (out @ [r]) ws"
  by (cases ws) (simp_all add: nth_append)

lemma wstep_count_inv: "count_inv n s \<Longrightarrow> count_inv n (wstep w par i s)"
proof (cases "i < length (workers s)")
  case False
  then show "count_inv n s \<Longrightarrow> ?thesis" by (simp add: wstep_def)
next
  case True
  assume inv: "count_inv n s"
  note upd = got_count_update[OF True]
  show ?thesis
  proof (cases "workers s ! i")
    case (Idle b)
    then show ?thesis using inv True upd[of Exited] upd[of "Got (hd (pending s)) b"]
      by (auto simp: wstep_def count_inv_def split: list.splits)
  next
    case (Got f b)
    then show ?thesis using inv True upd[of "Busy f (length (output s)) b"]
      by (auto simp: wstep_def count_inv_def)
  next
    case (Busy f k b)
    obtain r b1 out1 e1 where rj: "run_job w par b f (output s ! k) (env s) = (r, b1, out1, e1)"
      by (metis prod_cases4)
    show ?thesis
    proof (cases r)
      case None
      then show ?thesis using inv True Busy rj upd[of "Dead f ValueError"] upd[of "Idle b1"]
        by (auto simp: wstep_def count_inv_def)
    next
      case (Some err)
      then show ?thesis using inv True Busy rj upd[of "Dead f err"]
        by (auto simp: wstep_def count_inv_def)
    qed
  next
    case (Dead f err)
    then show ?thesis using inv True by (simp add: wstep_def)
  next
    case Exited
    then show ?thesis using inv True by (simp add: wstep_def)
  qed
qed

lemma wstep_named_inv: "named_inv s \<Longrightarrow> named_inv (wstep w par i s)"
proof (cases "i < length (workers s)")
  case False
  then show "named_inv s \<Longrightarrow> ?thesis" by (simp add: wstep_def)
next
  case True
  assume inv: "named_inv s"
  then have all: "list_all (has_record (output s)) (workers s)" by (simp add: named_inv_def)
  have here: "has_record (output s) (workers s ! i)"
    using all True by (simp add: list_all_length)
  show ?thesis
  proof (cases "workers s ! i")
    case (Idle b)
    then show ?thesis using True all
      by (auto simp: wstep_def named_inv_def split: list.splits intro!: list_all_update)
  next
    case (Got f b)
    have "list_all (has_record (output s @ [new_out par f])) (workers s)"
      using all has_record_append by (auto simp: list_all_iff)
    then show ?thesis using True Got
      by (auto simp: wstep_def named_inv_def new_out_def nth_append intro!: list_all_update)
  next
    case (Busy f k b)
    obtain r b1 out1 e1 where rj: "run_job w par b f (output s ! k) (env s) = (r, b1, out1, e1)"
      by (metis prod_cases4)
    have same: "map fits_filename ((output s)[k := out1]) = map fits_filename (output s)"
      using run_job_keeps[OF rj] by (intro map_fits_update) simp
    have all': "list_all (has_record ((output s)[k := out1])) (workers s)"
      using all has_record_cong[OF same] by (simp add: list_all_iff)
    have "k < length (map fits_filename (output s))"
         "map fits_filename (output s) ! k = Some f"
      using here Busy by simp_all
    then have "Some f \<in> set (map fits_filename (output s))"
      using nth_mem by metis
    then have rec: "Some f \<in> set (map fits_filename ((output s)[k := out1]))"
      using same by simp
    show ?thesis
    proof (cases r)
      case None
      then show ?thesis using True Busy rj all' rec
        by (auto simp: wstep_def named_inv_def intro!: list_all_update)
    next
      case (Some err)
      then show ?thesis using True Busy rj all' rec
        by (auto simp: wstep_def named_inv_def intro!: list_all_update)
    qed
  next
    case (Dead f err)
    then show ?thesis using inv True by (simp add: wstep_def)
  next
    case Exited
    then show ?thesis using inv True by (simp add: wstep_def)
  qed
qed

lemma exec_count_inv: "count_inv n s \<Longrightarrow> count_inv n (exec w par sched s)"
  by (induction sched arbitrary: s) (simp_all add: exec_Nil exec_Cons wstep_count_inv)

lemma exec_named_inv: "named_inv s \<Longrightarrow> named_inv (exec w par sched s)"
  by (induction sched arbitrary: s) (simp_all add: exec_Nil exec_Cons wstep_named_inv)

lemma populate_True:
  "populate fs s = (True, s') \<Longrightarrow>
     pending s' = pending s @ fs \<and> unfinished s' = unfinished s + length fs
     \<and> output s' = output s \<and> workers s' = workers s \<and> env s' = env s"
proof (induction fs arbitrary: s)
  case Nil
  then show ?case by simp
next
  case (Cons f fs)
  then show ?case by (auto split: if_splits)
qed

lemma populate_False:
  "populate fs s = (False, s') \<Longrightarrow>
     output s' = output s \<and> workers s' = workers s \<and> env s' = env s"
proof (induction fs arbitrary: s)
  case Nil
  then show ?case by simp
next
  case (Cons f fs)
  then show ?case by (auto split: if_splits)
qed

lemma resolve_telescope_Inr:
  "resolve_telescope w first hdr par s = Inr (oc, par1, s2) \<Longrightarrow> s2 = s"
  by (auto simp: resolve_telescope_def then_do_def Let_def
           split: if_splits option.splits pyval.splits sum.splits)

lemma resolve_telescope_Inl:
  "resolve_telescope w first hdr par s = Inl out \<Longrightarrow>
     pending (final_sys out) = pending s \<and> unfinished (final_sys out) = unfinished s
     \<and> workers (final_sys out) = workers s \<and> output (final_sys out) = output s
     \<and> (returned out = None \<or> returned out = Some RDict_empty)"
  by (auto simp: resolve_telescope_def then_do_def Let_def
           split: if_splits option.splits pyval.splits sum.splits)

lemma batch_setup_Inr:
  assumes "batch_setup w filenames par s = Inr (par1, s1)"
  shows "pending s1 = pending s @ filenames \<and> unfinished s1 = unfinished s + length filenames
       \<and> output s1 = [] \<and> workers s1 = replicate (min nThreads (length filenames)) (Idle False)"
  using assms
  by (auto simp: batch_setup_def then_do_def Let_def simp del: populate.simps
           split: list.splits option.splits sum.splits prod.splits bool.splits
           dest!: populate_True resolve_telescope_Inr)

lemma batch_setup_Inl_Returns:
  assumes "batch_setup w filenames par s = Inl (Returns r par1 s1)"
  shows "r = RDict_empty \<and> pending s1 = pending s \<and> unfinished s1 = unfinished s
       \<and> workers s1 = workers s"
  using assms
  by (auto simp: batch_setup_def then_do_def Let_def simp del: populate.simps
           split: list.splits option.splits sum.splits prod.splits bool.splits
           dest!: resolve_telescope_Inl)


subsection \<open>Failures before any job runs\<close>

text \<open>
  C7: for the empty list of file names the call raises (the IndexError of
  \<^verbatim>\<open>filenames[0]\<close>, which the specification calls EmptyBatch) whatever the world, the
  parameters and the schedule are: no telescope is resolved, nothing is put into the
  queue, no thread is started, and only the two opening log lines have been written.
\<close>

theorem empty_batch_raises:
  "extract_multiframe w sched [] par s =
     Raises IndexError par
       (s\<lparr>env := log_add (Info (''extraction parameters: '' @ repr_parameters w par))
                 (log_add (Info ''extract sources from 0 files using Source Extractor'')
                    (env s))\<rparr>)"
  by (simp add: extract_multiframe_def batch_setup_def Let_def dec_nat.simps digit_char_def)

text \<open>
  C6, as stated: a batch whose telescope cannot be resolved fails, with UnknownTelescope
  or MissingTelescopeTag. For the identifier \<^verbatim>\<open>XYZ\<close>, which is not in the table, the
  call does not raise: it returns the empty dictionary.
\<close>

theorem unknown_telescope_counterexample:
  "raised (extract_multiframe (ex_world tool_ok) [] [''a.fits'']
             (ex_params\<lparr>telescope := Some (PStr ''XYZ'')\<rparr>) ex_sys) = None
   \<and> returned (extract_multiframe (ex_world tool_ok) [] [''a.fits'']
             (ex_params\<lparr>telescope := Some (PStr ''XYZ'')\<rparr>) ex_sys) = Some RDict_empty"
  by (simp add: extract_multiframe_def batch_setup_def Let_def ex_sys_fields resolve_telescope_def
                then_do_def ex_world_fields ex_params_def)

lemma resolve_fails:
  assumes "(telescope par = None \<and> hdr ''TEL_KEYW'' = None)
         \<or> (\<exists>t. telescope_id par hdr = Some t \<and> telescope_entry w t = None
                 \<and> telescope_global w \<noteq> None)"
  shows "\<exists>out. resolve_telescope w first hdr par s = Inl out
           \<and> returned out = Some RDict_empty \<and> raised out = None
           \<and> pending (final_sys out) = pending s \<and> unfinished (final_sys out) = unfinished s
           \<and> workers (final_sys out) = workers s \<and> output (final_sys out) = output s
           \<and> obsparam (final_params out) = obsparam par
           \<and> aperture_diam (final_params out) = aperture_diam par
           \<and> (\<exists>msg. Critical msg \<in> set (logged (env (final_sys out))))"
proof -
  from assms consider
      (missing) "telescope par = None" "hdr ''TEL_KEYW'' = None"
    | (unknown) t where "telescope_id par hdr = Some t" "telescope_entry w t = None"
        "telescope_global w \<noteq> None"
    by auto
  then show ?thesis
  proof cases
    case missing
    then show ?thesis
      by (auto simp: resolve_telescope_def then_do_def)
  next
    case unknown
    then show ?thesis
      by (cases t)
         (auto simp: resolve_telescope_def then_do_def Let_def telescope_id_def
               split: option.splits)
  qed
qed

text \<open>
  C6, amended: when the first image can be opened and the telescope cannot be resolved
  (no identifier is given and the header has no \<^verbatim>\<open>TEL_KEYW\<close>; or the identifier, given
  or read from the header, is not in the table, the module-level name \<^verbatim>\<open>telescope\<close>
  being bound), the call logs a critical error and returns the empty dictionary without
  raising, under every schedule; the queue is as it was, no thread has been started, the
  result list has not been set up, and no configuration or aperture string has been put
  into the parameters.
\<close>

theorem unresolved_telescope_returns_empty:
  assumes "images (env s) first = Some hdr"
    and "(telescope par = None \<and> hdr ''TEL_KEYW'' = None)
         \<or> (\<exists>t. telescope_id par hdr = Some t \<and> telescope_entry w t = None
                 \<and> telescope_global w \<noteq> None)"
  shows "returned (extract_multiframe w sched (first # rest) par s) = Some RDict_empty
       \<and> raised (extract_multiframe w sched (first # rest) par s) = None
       \<and> pending (final_sys (extract_multiframe w sched (first # rest) par s)) = pending s
       \<and> unfinished (final_sys (extract_multiframe w sched (first # rest) par s)) = unfinished s
       \<and> workers (final_sys (extract_multiframe w sched (first # rest) par s)) = workers s
       \<and> output (final_sys (extract_multiframe w sched (first # rest) par s)) = output s
       \<and> obsparam (final_params (extract_multiframe w sched (first # rest) par s)) = obsparam par
       \<and> aperture_diam (final_params (extract_multiframe w sched (first # rest) par s))
           = aperture_diam par
       \<and> (\<exists>msg. Critical msg \<in>
             set (logged (env (final_sys (extract_multiframe w sched (first # rest) par s)))))"
proof -
  let ?s1 = "s\<lparr>env := log_add (Info (''extraction parameters: '' @ repr_parameters w par))
                    (log_add (Info (''extract sources from '' @ dec_nat (length (first # rest)) @
                                    '' files using Source Extractor'')) (env s))\<rparr>"
  obtain out where
    r: "resolve_telescope w first hdr par ?s1 = Inl out"
    and k: "returned out = Some RDict_empty" "raised out = None"
           "pending (final_sys out) = pending ?s1" "unfinished (final_sys out) = unfinished ?s1"
           "workers (final_sys out) = workers ?s1" "output (final_sys out) = output ?s1"
           "obsparam (final_params out) = obsparam par"
           "aperture_diam (final_params out) = aperture_diam par"
           "\<exists>msg. Critical msg \<in> set (logged (env (final_sys out)))"
    using resolve_fails[OF assms(2), of first ?s1] by blast
  have "extract_multiframe w sched (first # rest) par s = out"
    using assms(1) r by (simp add: extract_multiframe_def batch_setup_def Let_def then_do_def)
  then show ?thesis using k by simp
qed

theorem unresolved_telescope_returns_empty_witness:
  "images (env ex_sys) ''a.fits'' = Some ex_header
   \<and> telescope_id (ex_params\<lparr>telescope := Some (PStr ''XYZ'')\<rparr>) ex_header = Some (PStr ''XYZ'')
   \<and> telescope_entry (ex_world tool_ok) (PStr ''XYZ'') = None
   \<and> telescope_global (ex_world tool_ok) \<noteq> None
   \<and> returned (extract_multiframe (ex_world tool_ok) [0] [''a.fits'']
                 (ex_params\<lparr>telescope := Some (PStr ''XYZ'')\<rparr>) ex_sys) = Some RDict_empty
   \<and> pending (final_sys (extract_multiframe (ex_world tool_ok) [0] [''a.fits'']
                 (ex_params\<lparr>telescope := Some (PStr ''XYZ'')\<rparr>) ex_sys)) = []
   \<and> images (env ex_sys_untagged) ''a.fits'' = Some Map.empty
   \<and> telescope ex_params = None
   \<and> returned (extract_multiframe (ex_world tool_ok) [0] [''a.fits''] ex_params ex_sys_untagged)
       = Some RDict_empty
   \<and> workers (final_sys (extract_multiframe (ex_world tool_ok) [0] [''a.fits''] ex_params
                 ex_sys_untagged)) = []"
proof -
  have a: "images (env ex_sys) ''a.fits'' = Some ex_header"
    by (simp add: ex_sys_fields)
  have b: "telescope_id (ex_params\<lparr>telescope := Some (PStr ''XYZ'')\<rparr>) ex_header
             = Some (PStr ''XYZ'')"
    by (simp add: telescope_id_def)
  have c: "telescope_entry (ex_world tool_ok) (PStr ''XYZ'') = None"
    by (simp add: ex_world_fields)
  have d: "telescope_global (ex_world tool_ok) \<noteq> None"
    by (simp add: ex_world_fields)
  have e: "images (env ex_sys_untagged) ''a.fits'' = Some Map.empty"
    by (simp add: ex_sys_untagged_def)
  have f: "telescope ex_params = None"
    by (simp add: ex_params_def)
  have g: "(Map.empty :: header) ''TEL_KEYW'' = None"
    by simp
  have h1: "(telescope (ex_params\<lparr>telescope := Some (PStr ''XYZ'')\<rparr>) = None
              \<and> ex_header ''TEL_KEYW'' = None)
         \<or> (\<exists>t. telescope_id (ex_params\<lparr>telescope := Some (PStr ''XYZ'')\<rparr>) ex_header = Some t
                 \<and> telescope_entry (ex_world tool_ok) t = None
                 \<and> telescope_global (ex_world tool_ok) \<noteq> None)"
    using b c d by blast
  have h2: "(telescope ex_params = None \<and> (Map.empty :: header) ''TEL_KEYW'' = None)
         \<or> (\<exists>t. telescope_id ex_params Map.empty = Some t
                 \<and> telescope_entry (ex_world tool_ok) t = None
                 \<and> telescope_global (ex_world tool_ok) \<noteq> None)"
    using f g by blast
  show ?thesis
    using a b c d e f
      unresolved_telescope_returns_empty[OF a h1, of "[0]" "[]"]
      unresolved_telescope_returns_empty[OF e h2, of "[0]" "[]"]
    by (simp add: ex_sys_fields ex_sys_untagged_def)
qed

subsection \<open>The aperture diameter string\<close>

lemma diam_list_values:
  "map (py_float w) vs = map Inr rs \<Longrightarrow>
     diam_list w vs = Inr (map (\<lambda>r. str_float w (2 * r)) rs)"
proof (induction vs arbitrary: rs)
  case Nil
  then show ?case by simp
next
  case (Cons v vs)
  then obtain r rs' where rs: "rs = r # rs'" "py_float w v = Inr r"
      "map (py_float w) vs = map Inr rs'"
    by (cases rs) auto
  then show ?case using Cons.IH[of rs'] by (simp add: then_do_def mult.commute)
qed

text \<open>
  C5: when the radii are a non-empty list whose elements \<^verbatim>\<open>float\<close> reads as
  \<open>rs\<close>, or a numpy array \<open>rs\<close>, the aperture diameter string is the comma-joined
  sequence of \<^verbatim>\<open>str\<close> of twice each radius, in the order of the input; when the list
  of radii is empty or the radius is the float 0, it is \<^verbatim>\<open>str\<close> of twice the
  instrument's default radius, a float or an integer. (An empty numpy array gives the
  empty string.)
\<close>

theorem aperture_diam_string:
  "(aprad par = ApList vs \<and> vs \<noteq> [] \<and> map (py_float w) vs = map Inr rs \<longrightarrow>
      set_aperture_diam w oc par =
        (None, par\<lparr>aperture_diam := Some (comma_join (map (\<lambda>r. str_float w (2 * r)) rs))\<rparr>))
   \<and> (aprad par = ApArray rs \<longrightarrow>
      set_aperture_diam w oc par =
        (None, par\<lparr>aperture_diam := Some (comma_join (map (\<lambda>r. str_float w (2 * r)) rs))\<rparr>))
   \<and> (aprad par = ApList [] \<or> aprad par = ApScalar (PFloat 0) \<longrightarrow>
        (aprad_default oc = PFloat d \<longrightarrow>
           set_aperture_diam w oc par =
             (None, par\<lparr>aperture_diam := Some (str_float w (2 * d))\<rparr>))
      \<and> (aprad_default oc = PInt n \<longrightarrow>
           set_aperture_diam w oc par =
             (None, par\<lparr>aperture_diam := Some (dec_int (2 * n))\<rparr>)))"
  by (auto simp: set_aperture_diam_def diam_list_values mult.commute)

theorem aperture_diam_string_witness:
  "aprad (ex_params\<lparr>aprad := ApList [PFloat 2.5, PInt 1, PStr ''3.5'']\<rparr>)
     = ApList [PFloat 2.5, PInt 1, PStr ''3.5'']
   \<and> map (py_float (ex_world tool_ok)) [PFloat 2.5, PInt 1, PStr ''3.5''] = map Inr [2.5, 1, 3.5]
   \<and> aperture_diam (snd (set_aperture_diam (ex_world tool_ok) ex_conf
         (ex_params\<lparr>aprad := ApList [PFloat 2.5, PInt 1, PStr ''3.5'']\<rparr>))) = Some ''5.0,2.0,7.0''
   \<and> aperture_diam (snd (set_aperture_diam (ex_world tool_ok) ex_conf
         (ex_params\<lparr>aprad := ApArray [3.5, 2.5]\<rparr>))) = Some ''7.0,5.0''
   \<and> aprad_default ex_conf = PInt 4
   \<and> aperture_diam (snd (set_aperture_diam (ex_world tool_ok) ex_conf
         (ex_params\<lparr>aprad := ApList []\<rparr>))) = Some ''8''
   \<and> aprad_default ex_conf_split = PFloat 2.5
   \<and> aperture_diam (snd (set_aperture_diam (ex_world tool_ok) ex_conf_split
         (ex_params\<lparr>aprad := ApScalar (PFloat 0)\<rparr>))) = Some ''5.0''"
proof -
  have a: "map (py_float (ex_world tool_ok)) [PFloat 2.5, PInt 1, PStr ''3.5'']
             = map Inr [2.5, 1, 3.5]"
    by (simp add: ex_world_def)
  have s2: "str_float (ex_world tool_ok) 2 = ''2.0''"
           "str_float (ex_world tool_ok) 5 = ''5.0''"
           "str_float (ex_world tool_ok) 7 = ''7.0''"
    by (simp_all add: ex_world_def)
  have d1: "aprad_default ex_conf = PInt 4"
    by (simp add: ex_conf_def)
  have d2: "aprad_default ex_conf_split = PFloat 2.5"
    by (simp add: ex_conf_split_def)
  have e8: "dec_int 8 = ''8''"
    by (simp add: dec_int_def dec_nat.simps digit_char_def)
  have i1: "aperture_diam (snd (set_aperture_diam (ex_world tool_ok) ex_conf
         (ex_params\<lparr>aprad := ApList [PFloat 2.5, PInt 1, PStr ''3.5'']\<rparr>))) = Some ''5.0,2.0,7.0''"
    using a aperture_diam_string[where par="ex_params\<lparr>aprad := ApList [PFloat 2.5, PInt 1, PStr ''3.5'']\<rparr>"
        and vs="[PFloat 2.5, PInt 1, PStr ''3.5'']" and w="ex_world tool_ok"
        and rs="[2.5, 1, 3.5]" and oc=ex_conf]
    by (simp add: s2)
  have i2: "aperture_diam (snd (set_aperture_diam (ex_world tool_ok) ex_conf
         (ex_params\<lparr>aprad := ApArray [3.5, 2.5]\<rparr>))) = Some ''7.0,5.0''"
    using aperture_diam_string[where par="ex_params\<lparr>aprad := ApArray [3.5, 2.5]\<rparr>"
        and w="ex_world tool_ok" and rs="[3.5, 2.5]" and oc=ex_conf]
    by (simp add: s2)
  have i3: "aperture_diam (snd (set_aperture_diam (ex_world tool_ok) ex_conf
         (ex_params\<lparr>aprad := ApList []\<rparr>))) = Some ''8''"
    using d1 aperture_diam_string[where par="ex_params\<lparr>aprad := ApList []\<rparr>"
        and w="ex_world tool_ok" and oc=ex_conf and n=4]
    by (simp add: e8)
  have i4: "aperture_diam (snd (set_aperture_diam (ex_world tool_ok) ex_conf_split
         (ex_params\<lparr>aprad := ApScalar (PFloat 0)\<rparr>))) = Some ''5.0''"
    using d2 aperture_diam_string[where par="ex_params\<lparr>aprad := ApScalar (PFloat 0)\<rparr>"
        and w="ex_world tool_ok" and oc=ex_conf_split and d="2.5"]
    by (simp add: s2)
  show ?thesis
    using a d1 d2 i1 i2 i3 i4 by simp
qed

text \<open>
  C10: a radius that is a scalar other than the float 0 is replaced by the one-element
  list of its string, and the aperture diameter string is \<^verbatim>\<open>str\<close> of twice the
  number \<open>r\<close> that \<^verbatim>\<open>float\<close> reads from that string (the scalar itself, for a number
  that \<^verbatim>\<open>str\<close> and \<^verbatim>\<open>float\<close> carry unchanged); nothing is raised.
\<close>

theorem scalar_aperture_wrapped:
  assumes "aprad par = ApScalar v" and "v \<noteq> PFloat 0"
    and "float_of_string w (py_str w v) = Some r"
  shows "set_aperture_diam w oc par =
           (None, par\<lparr>aprad := ApList [PStr (py_str w v)],
                       aperture_diam := Some (str_float w (2 * r))\<rparr>)"
  using assms by (simp add: set_aperture_diam_def then_do_def Let_def mult.commute)

theorem scalar_aperture_wrapped_witness:
  "aprad (ex_params\<lparr>aprad := ApScalar (PFloat 3.5)\<rparr>) = ApScalar (PFloat 3.5)
   \<and> PFloat 3.5 \<noteq> PFloat 0
   \<and> float_of_string (ex_world tool_ok) (py_str (ex_world tool_ok) (PFloat 3.5)) = Some 3.5
   \<and> fst (set_aperture_diam (ex_world tool_ok) ex_conf
            (ex_params\<lparr>aprad := ApScalar (PFloat 3.5)\<rparr>)) = None
   \<and> aprad (snd (set_aperture_diam (ex_world tool_ok) ex_conf
            (ex_params\<lparr>aprad := ApScalar (PFloat 3.5)\<rparr>))) = ApList [PStr ''3.5'']
   \<and> aperture_diam (snd (set_aperture_diam (ex_world tool_ok) ex_conf
            (ex_params\<lparr>aprad := ApScalar (PFloat 3.5)\<rparr>))) = Some ''7.0''"
proof -
  have a: "aprad (ex_params\<lparr>aprad := ApScalar (PFloat 3.5)\<rparr>) = ApScalar (PFloat 3.5)"
    by simp
  have b: "PFloat 3.5 \<noteq> PFloat 0"
    by simp
  have s: "py_str (ex_world tool_ok) (PFloat 3.5) = ''3.5''"
    by (simp add: ex_world_def)
  have c: "float_of_string (ex_world tool_ok) (py_str (ex_world tool_ok) (PFloat 3.5)) = Some 3.5"
    unfolding s by (simp add: ex_world_def)
  have t: "str_float (ex_world tool_ok) (2 * 3.5) = ''7.0''"
    by (simp add: ex_world_def)
  have r: "set_aperture_diam (ex_world tool_ok) ex_conf
             (ex_params\<lparr>aprad := ApScalar (PFloat 3.5)\<rparr>)
           = (None, ex_params\<lparr>aprad := ApList [PStr ''3.5''], aperture_diam := Some ''7.0''\<rparr>)"
    using scalar_aperture_wrapped[OF a b c, of ex_conf] unfolding s t by simp
  show ?thesis
    using a b c unfolding r by simp
qed

subsection \<open>Binning\<close>

lemma bin_under:
  "bin_string (ex_world tool) ex_conf_under ex_header = Inl UnboundLocalError"
  by (simp add: bin_string_def read_binning_def py_in_def py_find_def ex_conf_under_def
                then_do_def)

lemma resolve_under:
  "resolve_telescope (ex_world tool) ''a.fits'' ex_header
     (ex_params\<lparr>telescope := Some (PStr ''ARC35'')\<rparr>) s
   = Inr (ex_conf_under,
          ex_params\<lparr>telescope := Some (PStr ''ARC35''), obsparam := Some ex_conf_under\<rparr>, s)"
  by (simp add: resolve_telescope_def then_do_def ex_world_fields ex_params_def)

lemma aperture_ex_params:
  "fst (set_aperture_diam w oc (ex_params\<lparr>telescope := t, obsparam := c\<rparr>)) = None"
  by (simp add: set_aperture_diam_def ex_params_def then_do_def)

text \<open>
  C9 fails on the code: for an instrument whose binning keys are \<^verbatim>\<open>BIN_X\<close> and
  \<^verbatim>\<open>BIN_Y\<close>, keys that contain an underscore and not \<^verbatim>\<open>_blank\<close>, neither binning
  value is assigned, although the header has both cards, and the call raises
  UnboundLocalError where the binning string is formatted.
\<close>

theorem binning_underscore_key_unbound:
  "read_binning (ex_world tool_ok) ex_conf_under ex_header = Inr None
   \<and> bin_string (ex_world tool_ok) ex_conf_under ex_header = Inl UnboundLocalError
   \<and> raised (extract_multiframe (ex_world tool_ok) [] [''a.fits'']
               (ex_params\<lparr>telescope := Some (PStr ''ARC35'')\<rparr>) ex_sys)
       = Some UnboundLocalError"
proof -
  obtain p2 where ap: "set_aperture_diam (ex_world tool_ok) ex_conf_under
      (ex_params\<lparr>telescope := Some (PStr ''ARC35''), obsparam := Some ex_conf_under\<rparr>)
        = (None, p2)"
    using aperture_ex_params[where w="ex_world tool_ok" and oc=ex_conf_under
        and t="Some (PStr ''ARC35'')" and c="Some ex_conf_under"]
    by (metis prod.collapse)
  have rb: "read_binning (ex_world tool_ok) ex_conf_under ex_header = Inr None"
    by (simp add: read_binning_def py_in_def py_find_def ex_conf_under_def)
  show ?thesis
    by (simp add: rb extract_multiframe_def batch_setup_def Let_def ex_sys_fields resolve_under
                  then_do_def ap bin_under)
qed

subsection \<open>Observation mid-time\<close>

lemma find_at_char:
  "(find_at [c] s i = - 1) = (c \<notin> set s)"
proof (induction s arbitrary: i)
  case Nil
  then show ?case by simp
next
  case (Cons x xs)
  then show ?case by (cases "x = c") auto
qed

lemma py_find_char: "(py_find s [c] = - 1) = (c \<notin> set s)"
  by (simp add: py_find_def find_at_char)

lemma split_by_none:
  "c \<notin> set b \<Longrightarrow> split_by (\<lambda>x. x = c) cur b = [cur @ b]"
  by (induction b arbitrary: cur) auto

lemma split_by_first:
  "c \<notin> set a \<Longrightarrow>
     split_by (\<lambda>x. x = c) cur (a @ c # b) = (cur @ a) # split_by (\<lambda>x. x = c) [] b"
  by (induction a arbitrary: cur) auto

lemma py_split_two:
  "c \<notin> set a \<Longrightarrow> c \<notin> set b \<Longrightarrow> py_split (a @ [c] @ b) c = [a, b]"
  by (simp add: py_split_def split_by_first split_by_none)

lemma midtime_present:
  "h (obsmidtime_jd oc) = Some v \<Longrightarrow> midtime w oc h = Inr v"
  by (simp add: midtime_def hdr_get_def)

lemma midtime_combined:
  assumes "h (obsmidtime_jd oc) = None" "CHR ''|'' \<notin> set (date_keyword oc)"
    and "midtime w oc h = Inr t"
  shows "\<exists>d jd x T. h (date_keyword oc) = Some d \<and> dateobs_to_jd w d = Inr jd
           \<and> h (exptime oc) = Some x \<and> py_float w x = Inr T
           \<and> t = PFloat (jd + T / 2 / 86400)"
  using assms
  by (auto simp: midtime_def py_find_char hdr_get_def then_do_def
           split: option.splits sum.splits)

lemma midtime_split:
  assumes "h (obsmidtime_jd oc) = None" "date_keyword oc = dk @ ''|'' @ tk"
    and "CHR ''|'' \<notin> set dk" "CHR ''|'' \<notin> set tk"
    and "midtime w oc h = Inr t"
  shows "\<exists>d tm jd x T. h dk = Some (PStr d) \<and> h tk = Some (PStr tm)
           \<and> dateobs_to_jd w (PStr (d @ ''T'' @ tm)) = Inr jd
           \<and> h (exptime oc) = Some x \<and> py_float w x = Inr T
           \<and> t = PFloat (jd + T / 2 / 86400)"
proof -
  have sp: "py_split (date_keyword oc) CHR ''|'' = [dk, tk]"
    using py_split_two[OF assms(3,4)] assms(2) by simp
  have nf: "py_find (date_keyword oc) ''|'' \<noteq> - 1"
    using assms(2) by (simp add: py_find_char)
  from assms(5) obtain d where d: "h dk = Some d"
    using assms(1) nf sp
    by (auto simp: midtime_def py_index_def hdr_get_def then_do_def split: option.splits)
  from assms(5) obtain tm where tm: "h tk = Some tm"
    using assms(1) nf sp d
    by (auto simp: midtime_def py_index_def hdr_get_def then_do_def split: option.splits sum.splits)
  from assms(5) obtain ds where ds: "d = PStr ds"
    using assms(1) nf sp d tm
    by (cases d) (auto simp: midtime_def py_index_def hdr_get_def then_do_def)
  from assms(5) obtain ts where ts: "tm = PStr ts"
    using assms(1) nf sp d tm ds
    by (cases tm) (auto simp: midtime_def py_index_def hdr_get_def then_do_def)
  show ?thesis
    using assms(1,5) nf sp d tm ds ts
    by (auto simp: midtime_def py_index_def hdr_get_def then_do_def
             split: option.splits sum.splits)
qed

lemma run_job_success:
  assumes "run_job w par b f out e = (None, b1, out1, e1)"
  shows "\<exists>oc hdr t. obsparam par = Some oc \<and> images e f = Some hdr
           \<and> midtime w oc hdr = Inr t \<and> time out1 = Some t"
  using assms
  by (auto simp: run_job_def Let_def split: sum.splits option.splits prod.splits if_splits tool_run.splits)


lemma run_job_succeeds:
  assumes "aperture_diam par = Some dm" and "obsparam par = Some oc"
    and "\<And>c. sextractor w c = Runs (Some (Rows rows))"
    and "images e f = Some hdr" and "midtime w oc hdr = Inr t"
    and "aprad_card w (aprad par) = Inr a"
  shows "job_err (run_job w par b f out e) = None
       \<and> time (job_out (run_job w par b f out e)) = Some t
       \<and> catalog_data (job_out (run_job w par b f out e)) = Some rows"
  using assms
  by (simp add: run_job_def command_line_def then_do_def read_ldac_def Let_def
                job_err_def job_out_def)

text \<open>
  C3: for a frame processed without an exception, with the instrument configuration
  \<open>oc\<close> and the image header \<open>hdr\<close>: if the header has the mid-time card, its value is
  the recorded time; if it has not and the date key has no \<^verbatim>\<open>|\<close>, the recorded time
  is \<^verbatim>\<open>dateobs_to_jd\<close> of the date card plus the exposure time divided by 2 and by
  86400; if it has not and the date key is \<open>dk|tk\<close>, the recorded time is
  \<^verbatim>\<open>dateobs_to_jd\<close> of the two cards joined by \<^verbatim>\<open>T\<close>, plus the same term.
\<close>

theorem midtime_recorded:
  assumes "job_err (run_job w par b f out e) = None"
    and "obsparam par = Some oc" and "images e f = Some hdr"
  shows "(hdr (obsmidtime_jd oc) = Some v \<longrightarrow>
            time (job_out (run_job w par b f out e)) = Some v)
       \<and> (hdr (obsmidtime_jd oc) = None \<and> CHR ''|'' \<notin> set (date_keyword oc) \<longrightarrow>
            (\<exists>d jd x T. hdr (date_keyword oc) = Some d \<and> dateobs_to_jd w d = Inr jd
               \<and> hdr (exptime oc) = Some x \<and> py_float w x = Inr T
               \<and> time (job_out (run_job w par b f out e))
                   = Some (PFloat (jd + T / 2 / 86400))))
       \<and> (hdr (obsmidtime_jd oc) = None \<and> date_keyword oc = dk @ ''|'' @ tk
            \<and> CHR ''|'' \<notin> set dk \<and> CHR ''|'' \<notin> set tk \<longrightarrow>
            (\<exists>d tm jd x T. hdr dk = Some (PStr d) \<and> hdr tk = Some (PStr tm)
               \<and> dateobs_to_jd w (PStr (d @ ''T'' @ tm)) = Inr jd
               \<and> hdr (exptime oc) = Some x \<and> py_float w x = Inr T
               \<and> time (job_out (run_job w par b f out e))
                   = Some (PFloat (jd + T / 2 / 86400))))"
proof -
  obtain b1 out1 e1 where rj: "run_job w par b f out e = (None, b1, out1, e1)"
    using assms(1) by (cases "run_job w par b f out e") (simp add: job_err_def)
  obtain t where m: "midtime w oc hdr = Inr t" and t: "time out1 = Some t"
    using run_job_success[OF rj] assms(2,3) by auto
  have o: "job_out (run_job w par b f out e) = out1"
    using rj by (simp add: job_out_def)
  show ?thesis
    unfolding o t
    using m midtime_present[of hdr oc v w] midtime_combined[of hdr oc w t]
      midtime_split[of hdr oc dk tk w t]
    by auto
qed

lemma ex_midtimes:
  "midtime (ex_world tool) ex_conf_under ex_header = Inr (PFloat 2457388.75)"
  "midtime (ex_world tool) ex_conf ex_header = Inr (PFloat (2457388.5 + 60 / 2 / 86400))"
  "midtime (ex_world tool) ex_conf_split ex_header = Inr (PFloat (2457388.5 + 60 / 2 / 86400))"
  by (simp_all add: midtime_def ex_conf_under_def ex_conf_def ex_conf_split_def ex_header_def
        hdr_get_def then_do_def py_find_def py_split_def py_index_def ex_world_def)

lemma ex_job_ok:
  assumes "midtime (ex_world tool_ok) oc ex_header = Inr t"
  shows "job_err (ex_job oc) = None"
  unfolding ex_job_def
  using run_job_succeeds[where par="ex_ready\<lparr>obsparam := Some oc\<rparr>" and oc=oc
      and w="ex_world tool_ok" and e=ex_env and f="''a.fits''" and hdr=ex_header
      and rows="[''source 1'', ''source 2'']" and dm="''7.0''" and t=t
      and a="''3.5''"] assms
  by (simp add: ex_ready_def ex_params_def ex_world_def tool_ok_def ex_env_def)

lemma ex_header_cards:
  "ex_header ''JD-MID'' = Some (PFloat 2457388.75)"
  "ex_header ''MIDTIMJD'' = None"
  "ex_header ''DATE-OBS'' = Some (PStr ''2016-01-01T00:00:00'')"
  "ex_header ''DATE'' = Some (PStr ''2016-01-01'')"
  "ex_header ''UT'' = Some (PStr ''00:00:00'')"
  "ex_header ''EXPTIME'' = Some (PFloat 60)"
  by (simp_all add: ex_header_def)

theorem midtime_recorded_witness:
  "job_err (ex_job ex_conf_under) = None
   \<and> ex_header (obsmidtime_jd ex_conf_under) = Some (PFloat 2457388.75)
   \<and> time (job_out (ex_job ex_conf_under)) = Some (PFloat 2457388.75)
   \<and> job_err (ex_job ex_conf) = None
   \<and> ex_header (obsmidtime_jd ex_conf) = None
   \<and> CHR ''|'' \<notin> set (date_keyword ex_conf)
   \<and> time (job_out (ex_job ex_conf)) = Some (PFloat (2457388.5 + 60 / 2 / 86400))
   \<and> job_err (ex_job ex_conf_split) = None
   \<and> ex_header (obsmidtime_jd ex_conf_split) = None
   \<and> date_keyword ex_conf_split = ''DATE'' @ ''|'' @ ''UT''
   \<and> time (job_out (ex_job ex_conf_split)) = Some (PFloat (2457388.5 + 60 / 2 / 86400))"
proof -
  have img: "images ex_env ''a.fits'' = Some ex_header"
    by (simp add: ex_env_def)
  have jd: "dateobs_to_jd (ex_world tool_ok) (PStr ''2016-01-01T00:00:00'') = Inr 2457388.5"
    by (simp add: ex_world_def)
  have e1: "job_err (ex_job ex_conf_under) = None"
    using ex_job_ok ex_midtimes(1) by blast
  have e2: "job_err (ex_job ex_conf) = None"
    using ex_job_ok ex_midtimes(2) by blast
  have e3: "job_err (ex_job ex_conf_split) = None"
    using ex_job_ok ex_midtimes(3) by blast
  have k1: "obsmidtime_jd ex_conf_under = ''JD-MID''"
    by (simp add: ex_conf_under_def)
  have k2: "obsmidtime_jd ex_conf = ''MIDTIMJD''" "date_keyword ex_conf = ''DATE-OBS''"
    "exptime ex_conf = ''EXPTIME''"
    by (simp_all add: ex_conf_def)
  have k3: "obsmidtime_jd ex_conf_split = ''MIDTIMJD''" "date_keyword ex_conf_split = ''DATE|UT''"
    "exptime ex_conf_split = ''EXPTIME''"
    by (simp_all add: ex_conf_split_def)
  have t1: "time (job_out (ex_job ex_conf_under)) = Some (PFloat 2457388.75)"
    using midtime_recorded[where w="ex_world tool_ok" and par="ex_ready\<lparr>obsparam := Some ex_conf_under\<rparr>"
        and b=False and f="''a.fits''" and e=ex_env and oc=ex_conf_under and hdr=ex_header
        and out="new_out (ex_ready\<lparr>obsparam := Some ex_conf_under\<rparr>) ''a.fits''"
        and v="PFloat 2457388.75"]
      e1 img
    by (simp add: ex_job_def k1 ex_header_cards)
  have "\<exists>d jd x T. ex_header (date_keyword ex_conf) = Some d
            \<and> dateobs_to_jd (ex_world tool_ok) d = Inr jd
            \<and> ex_header (exptime ex_conf) = Some x \<and> py_float (ex_world tool_ok) x = Inr T
            \<and> time (job_out (ex_job ex_conf)) = Some (PFloat (jd + T / 2 / 86400))"
    using midtime_recorded[where w="ex_world tool_ok" and par="ex_ready\<lparr>obsparam := Some ex_conf\<rparr>"
        and b=False and f="''a.fits''" and e=ex_env and oc=ex_conf and hdr=ex_header
        and out="new_out (ex_ready\<lparr>obsparam := Some ex_conf\<rparr>) ''a.fits''"
        and dk="[]" and tk="[]" and v="PInt 0"]
      e2 img
    by (simp add: ex_job_def k2 ex_header_cards)
  then obtain d jd x T where c2: "ex_header (date_keyword ex_conf) = Some d"
      "dateobs_to_jd (ex_world tool_ok) d = Inr jd"
      "ex_header (exptime ex_conf) = Some x" "py_float (ex_world tool_ok) x = Inr T"
      "time (job_out (ex_job ex_conf)) = Some (PFloat (jd + T / 2 / 86400))"
    by blast
  have "d = PStr ''2016-01-01T00:00:00''" "x = PFloat 60"
    using c2(1,3) by (simp_all add: k2 ex_header_cards)
  then have "jd = 2457388.5" "T = 60"
    using c2(2,4) jd by simp_all
  then have t2: "time (job_out (ex_job ex_conf)) = Some (PFloat (2457388.5 + 60 / 2 / 86400))"
    using c2(5) by simp
  have "\<exists>d tm jd x T. ex_header ''DATE'' = Some (PStr d) \<and> ex_header ''UT'' = Some (PStr tm)
            \<and> dateobs_to_jd (ex_world tool_ok) (PStr (d @ ''T'' @ tm)) = Inr jd
            \<and> ex_header (exptime ex_conf_split) = Some x
            \<and> py_float (ex_world tool_ok) x = Inr T
            \<and> time (job_out (ex_job ex_conf_split)) = Some (PFloat (jd + T / 2 / 86400))"
    using midtime_recorded[where w="ex_world tool_ok"
        and par="ex_ready\<lparr>obsparam := Some ex_conf_split\<rparr>"
        and b=False and f="''a.fits''" and e=ex_env and oc=ex_conf_split and hdr=ex_header
        and out="new_out (ex_ready\<lparr>obsparam := Some ex_conf_split\<rparr>) ''a.fits''"
        and dk="''DATE''" and tk="''UT''" and v="PInt 0"]
      e3 img
    by (simp add: ex_job_def k3 ex_header_cards)
  then obtain d3 tm3 jd3 x3 T3 where c3: "ex_header ''DATE'' = Some (PStr d3)"
      "ex_header ''UT'' = Some (PStr tm3)"
      "dateobs_to_jd (ex_world tool_ok) (PStr (d3 @ ''T'' @ tm3)) = Inr jd3"
      "ex_header (exptime ex_conf_split) = Some x3" "py_float (ex_world tool_ok) x3 = Inr T3"
      "time (job_out (ex_job ex_conf_split)) = Some (PFloat (jd3 + T3 / 2 / 86400))"
    by blast
  have "d3 = ''2016-01-01''" "tm3 = ''00:00:00''" "x3 = PFloat 60"
    using c3(1,2,4) by (simp_all add: k3 ex_header_cards)
  then have "jd3 = 2457388.5" "T3 = 60"
    using c3(3,5) jd by simp_all
  then have t3: "time (job_out (ex_job ex_conf_split))
                   = Some (PFloat (2457388.5 + 60 / 2 / 86400))"
    using c3(6) by simp
  show ?thesis
    using e1 e2 e3 t1 t2 t3 by (simp add: k1 k2 k3 ex_header_cards)
qed

subsection \<open>Steps of a thread and the example runs\<close>

lemma job_parts:
  "run_job w par b f out e =
     (job_err (run_job w par b f out e), job_sex (run_job w par b f out e),
      job_out (run_job w par b f out e), job_env (run_job w par b f out e))"
  by (simp add: job_err_def job_sex_def job_out_def job_env_def)

lemma wstep_dies:
  assumes "i < length (workers s)" "workers s ! i = Busy f k b"
    and "job_err (run_job w par b f (output s ! k) (env s)) = Some err"
  shows "wstep w par i s =
           s\<lparr>output := (output s)[k := job_out (run_job w par b f (output s ! k) (env s))],
             env := job_env (run_job w par b f (output s ! k) (env s)),
             workers := (workers s)[i := Dead f err]\<rparr>"
  using assms
  by (auto simp: wstep_def job_err_def job_out_def job_env_def job_sex_def
           split: prod.splits option.splits)

lemma wstep_done:
  assumes "i < length (workers s)" "workers s ! i = Busy f k b"
    and "job_err (run_job w par b f (output s ! k) (env s)) = None" "unfinished s \<noteq> 0"
  shows "wstep w par i s =
           s\<lparr>output := (output s)[k := job_out (run_job w par b f (output s ! k) (env s))],
             env := job_env (run_job w par b f (output s ! k) (env s)),
             unfinished := unfinished s - 1,
             workers := (workers s)[i := Idle (job_sex (run_job w par b f (output s ! k) (env s)))]\<rparr>"
  using assms
  by (auto simp: wstep_def job_err_def job_out_def job_env_def job_sex_def
           split: prod.splits option.splits)

lemma run_job_launch_fails:
  assumes "\<And>c. sextractor w c = LaunchFails"
  shows "job_err (run_job w par False f out e) \<noteq> None
       \<and> job_sex (run_job w par False f out e) = False"
  using assms
  by (auto simp: run_job_def Let_def job_err_def job_sex_def split: sum.splits)

lemma run_job_unbound:
  assumes "\<And>c. sextractor w c = LaunchFails"
    and "aperture_diam par = Some dm" "obsparam par = Some oc"
  shows "job_err (run_job w par False f out e) = Some UnboundLocalError
       \<and> job_out (run_job w par False f out e) = out
       \<and> logged (job_env (run_job w par False f out e))
           = logged e @ [Error ''cannot call Source Extractor'']"
  using assms
  by (simp add: run_job_def command_line_def then_do_def Let_def job_err_def job_out_def job_env_def)

lemma run_job_corrupt:
  assumes "\<And>c. sextractor w c = Runs (Some Corrupt)"
    and "aperture_diam par = Some dm" "obsparam par = Some oc"
  shows "job_err (run_job w par b f out e) = Some IOError
       \<and> job_out (run_job w par b f out e) = out"
  using assms
  by (simp add: run_job_def command_line_def then_do_def Let_def job_err_def job_out_def
                read_ldac_def)

lemma wstep_never_completes:
  assumes "\<And>c. sextractor w c = LaunchFails" and "list_all sex_unbound (workers s)"
  shows "unfinished (wstep w par i s) = unfinished s
       \<and> list_all sex_unbound (workers (wstep w par i s))"
proof (cases "i < length (workers s)")
  case False
  then show ?thesis using assms(2) by (simp add: wstep_def)
next
  case True
  have here: "sex_unbound (workers s ! i)"
    using assms(2) True by (simp add: list_all_length)
  show ?thesis
  proof (cases "workers s ! i")
    case (Idle b)
    then show ?thesis using True assms(2) here
      by (auto simp: wstep_def split: list.splits intro!: list_all_update)
  next
    case (Got f b)
    then show ?thesis using True assms(2) here
      by (auto simp: wstep_def intro!: list_all_update)
  next
    case (Busy f k b)
    then have b: "b = False" using here by simp
    obtain err where e: "job_err (run_job w par False f (output s ! k) (env s)) = Some err"
      using run_job_launch_fails[OF assms(1), of par f "output s ! k" "env s"] by auto
    show ?thesis
      using wstep_dies[OF True Busy[unfolded b] e] assms(2)
      by (auto intro!: list_all_update)
  next
    case (Dead f err)
    then show ?thesis using True assms(2) by (simp add: wstep_def)
  next
    case Exited
    then show ?thesis using True assms(2) by (simp add: wstep_def)
  qed
qed

lemma exec_never_completes:
  assumes "\<And>c. sextractor w c = LaunchFails"
  shows "list_all sex_unbound (workers s) \<Longrightarrow>
     unfinished (exec w par sched s) = unfinished s
       \<and> list_all sex_unbound (workers (exec w par sched s))"
proof (induction sched arbitrary: s)
  case Nil
  then show ?case by (simp add: exec_Nil)
next
  case (Cons i sched)
  then show ?case
    using wstep_never_completes[OF assms, of s par i] by (simp add: exec_Cons)
qed


lemma in_flight_replicate_Idle: "in_flight (replicate n (Idle b)) = 0"
  by (simp add: in_flight_def)

lemma got_count_replicate_Idle: "got_count (replicate n (Idle b)) = 0"
  by (simp add: got_count_def)

lemma got_le_in_flight: "got_count ws \<le> in_flight ws"
proof (induction ws)
  case Nil
  then show ?case by (simp add: got_count_def in_flight_def)
next
  case (Cons x xs)
  then show ?case by (cases x) (simp_all add: got_count_def in_flight_def)
qed

lemma dead_in_flight: "Dead f err \<in> set ws \<Longrightarrow> 0 < in_flight ws"
  by (induction ws) (auto simp: in_flight_def)

lemma setup_invariants:
  assumes d: "drained s" and b: "batch_setup w filenames par s = Inr (par1, s1)"
  shows "queue_inv s1 \<and> count_inv (length filenames) s1 \<and> named_inv s1"
  using batch_setup_Inr[OF b] d
  by (simp add: drained_def queue_inv_def count_inv_def named_inv_def
                in_flight_replicate_Idle got_count_replicate_Idle list_all_iff)

lemma extract_after_setup:
  "batch_setup w filenames par s = Inr (par1, s1) \<Longrightarrow>
     extract_multiframe w sched filenames par s =
       (if unfinished (exec w par1 sched s1) = 0
        then Returns (RList (output (exec w par1 sched s1))) par1 (exec w par1 sched s1)
        else Waits par1 (exec w par1 sched s1))"
  by (simp add: extract_multiframe_def Let_def)

lemma ex_bin: "bin_string (ex_world tool) ex_conf ex_header = Inr ''2,2''"
  by (simp add: bin_string_def read_binning_def py_in_def py_find_def ex_conf_def ex_header_def
                hdr_get_def then_do_def dec_int_def dec_nat.simps digit_char_def)

lemma ex_resolve:
  "resolve_telescope (ex_world tool) ''a.fits'' ex_header ex_params s
     = Inr (ex_conf, ex_params\<lparr>telescope := Some (PStr ''VATT4K''), obsparam := Some ex_conf\<rparr>, s)"
  by (simp add: resolve_telescope_def ex_params_def then_do_def ex_world_fields ex_header_def)

lemma ex_aperture:
  "set_aperture_diam (ex_world tool) ex_conf
     (ex_params\<lparr>telescope := Some (PStr ''VATT4K''), obsparam := Some ex_conf\<rparr>)
   = (None, ex_params\<lparr>telescope := Some (PStr ''VATT4K''), obsparam := Some ex_conf,
                       aperture_diam := Some ''7.0''\<rparr>)"
  by (simp add: set_aperture_diam_def ex_params_def then_do_def ex_world_def)

lemma ex_setup:
  "batch_setup (ex_world tool) [''a.fits''] ex_params ex_sys = Inr (ex_ready, ex_started)"
  apply (simp add: batch_setup_def ex_world_fields ex_sys_fields ex_resolve ex_aperture ex_bin
                   then_do_def Let_def)
  apply (simp add: ex_sys_def ex_started_def ex_ready_def dec_nat.simps digit_char_def
                   set_mask_file_def ex_conf_def queue_maxsize_def nThreads_def log_add_def ex_env_def)
  done


lemma ex_busy_fields:
  "workers ex_busy = [Busy ''a.fits'' 0 False]" "output ex_busy = [new_out ex_ready ''a.fits'']"
  "pending ex_busy = []" "unfinished ex_busy = 1"
  "images (env ex_busy) ''a.fits'' = Some ex_header"
  "aperture_diam ex_ready = Some ''7.0''" "obsparam ex_ready = Some ex_conf"
  "aprad ex_ready = ApList [PFloat 3.5]"
  by (simp_all add: ex_busy_def ex_started_def ex_ready_def ex_params_def ex_env_def)

lemma ex_two_steps: "exec w ex_ready [0, 0] ex_started = ex_busy"
  by (simp add: exec_def wstep_def ex_started_def ex_busy_def)

lemma ex_three_steps: "exec w ex_ready [0, 0, 0] ex_started = wstep w ex_ready 0 ex_busy"
  using exec_snoc[of w ex_ready "[0, 0]" 0 ex_started] by (simp add: ex_two_steps)

lemma ex_drained: "drained ex_sys"
  by (simp add: drained_def ex_sys_def in_flight_def)

lemma ex_run_corrupt:
  "workers (exec (ex_world tool_corrupt) ex_ready [0, 0, 0] ex_started) = [Dead ''a.fits'' IOError]"
  "output (exec (ex_world tool_corrupt) ex_ready [0, 0, 0] ex_started) = [new_out ex_ready ''a.fits'']"
  "unfinished (exec (ex_world tool_corrupt) ex_ready [0, 0, 0] ex_started) = 1"
proof -
  have t: "\<And>c. sextractor (ex_world tool_corrupt) c = Runs (Some Corrupt)"
    by (simp add: ex_world_fields tool_corrupt_def)
  note rj = run_job_corrupt[OF t ex_busy_fields(6,7), of False "''a.fits''"
      "new_out ex_ready ''a.fits''" "env ex_busy"]
  have st: "wstep (ex_world tool_corrupt) ex_ready 0 ex_busy =
      ex_busy\<lparr>output := (output ex_busy)[0 := new_out ex_ready ''a.fits''],
        env := job_env (run_job (ex_world tool_corrupt) ex_ready False ''a.fits''
                 (output ex_busy ! 0) (env ex_busy)),
        workers := (workers ex_busy)[0 := Dead ''a.fits'' IOError]\<rparr>"
    using wstep_dies[of 0 ex_busy "''a.fits''" 0 False "ex_world tool_corrupt" ex_ready IOError] rj
    by (simp add: ex_busy_fields)
  show "workers (exec (ex_world tool_corrupt) ex_ready [0, 0, 0] ex_started) = [Dead ''a.fits'' IOError]"
    "output (exec (ex_world tool_corrupt) ex_ready [0, 0, 0] ex_started) = [new_out ex_ready ''a.fits'']"
    "unfinished (exec (ex_world tool_corrupt) ex_ready [0, 0, 0] ex_started) = 1"
    unfolding ex_three_steps st by (simp_all add: ex_busy_fields)
qed

lemma ex_run_absent:
  "workers (exec (ex_world tool_absent) ex_ready [0, 0, 0] ex_started)
     = [Dead ''a.fits'' UnboundLocalError]"
  "output (exec (ex_world tool_absent) ex_ready [0, 0, 0] ex_started)
     = [new_out ex_ready ''a.fits'']"
  "pending (exec (ex_world tool_absent) ex_ready [0, 0, 0] ex_started) = []"
  "unfinished (exec (ex_world tool_absent) ex_ready [0, 0, 0] ex_started) = 1"
  "last (logged (env (exec (ex_world tool_absent) ex_ready [0, 0, 0] ex_started)))
     = Error ''cannot call Source Extractor''"
proof -
  have t: "\<And>c. sextractor (ex_world tool_absent) c = LaunchFails"
    by (simp add: ex_world_fields tool_absent_def)
  note rj = run_job_unbound[OF t ex_busy_fields(6,7), of "''a.fits''"
      "new_out ex_ready ''a.fits''" "env ex_busy"]
  have st: "wstep (ex_world tool_absent) ex_ready 0 ex_busy =
      ex_busy\<lparr>output := (output ex_busy)[0 := new_out ex_ready ''a.fits''],
        env := job_env (run_job (ex_world tool_absent) ex_ready False ''a.fits''
                 (output ex_busy ! 0) (env ex_busy)),
        workers := (workers ex_busy)[0 := Dead ''a.fits'' UnboundLocalError]\<rparr>"
    using wstep_dies[of 0 ex_busy "''a.fits''" 0 False "ex_world tool_absent" ex_ready
        UnboundLocalError] rj
    by (simp add: ex_busy_fields)
  show "workers (exec (ex_world tool_absent) ex_ready [0, 0, 0] ex_started)
     = [Dead ''a.fits'' UnboundLocalError]"
  "output (exec (ex_world tool_absent) ex_ready [0, 0, 0] ex_started)
     = [new_out ex_ready ''a.fits'']"
  "pending (exec (ex_world tool_absent) ex_ready [0, 0, 0] ex_started) = []"
  "unfinished (exec (ex_world tool_absent) ex_ready [0, 0, 0] ex_started) = 1"
  "last (logged (env (exec (ex_world tool_absent) ex_ready [0, 0, 0] ex_started)))
     = Error ''cannot call Source Extractor''"
    unfolding ex_three_steps st using rj by (simp_all add: ex_busy_fields)
qed

lemma ex_run_ok:
  "unfinished (exec (ex_world tool_ok) ex_ready [0, 0, 0] ex_started) = 0"
  "length (output (exec (ex_world tool_ok) ex_ready [0, 0, 0] ex_started)) = 1"
proof -
  have t: "\<And>c. sextractor (ex_world tool_ok) c = Runs (Some (Rows [''source 1'', ''source 2'']))"
    by (simp add: ex_world_fields tool_ok_def)
  have a: "aprad_card (ex_world tool_ok) (aprad ex_ready) = Inr ''3.5''"
    by (simp add: ex_busy_fields ex_world_def)
  note rj = run_job_succeeds[OF ex_busy_fields(6,7) t ex_busy_fields(5) ex_midtimes(2) a,
      of False "new_out ex_ready ''a.fits''"]
  have st: "wstep (ex_world tool_ok) ex_ready 0 ex_busy =
      ex_busy\<lparr>output := (output ex_busy)[0 := job_out (run_job (ex_world tool_ok) ex_ready False
                   ''a.fits'' (output ex_busy ! 0) (env ex_busy))],
        env := job_env (run_job (ex_world tool_ok) ex_ready False ''a.fits''
                 (output ex_busy ! 0) (env ex_busy)),
        unfinished := unfinished ex_busy - 1,
        workers := (workers ex_busy)[0 := Idle (job_sex (run_job (ex_world tool_ok) ex_ready False
                   ''a.fits'' (output ex_busy ! 0) (env ex_busy)))]\<rparr>"
    using wstep_done[of 0 ex_busy "''a.fits''" 0 False "ex_world tool_ok" ex_ready] rj
    by (simp add: ex_busy_fields)
  show "unfinished (exec (ex_world tool_ok) ex_ready [0, 0, 0] ex_started) = 0"
    "length (output (exec (ex_world tool_ok) ex_ready [0, 0, 0] ex_started)) = 1"
    unfolding ex_three_steps st by (simp_all add: ex_busy_fields)
qed


subsection \<open>The queue at the return\<close>

text \<open>
  C2: if the queue is drained when \<^verbatim>\<open>extract_multiframe\<close> is called (nothing pending,
  no unfinished task, no job in flight) and the call returns, under whatever schedule of
  the threads, then when it returns nothing is pending, no task is unfinished and no
  thread holds a job in flight: every file name that was put into the queue has been
  taken out and \<^verbatim>\<open>task_done\<close> has been called for it.
\<close>

theorem queue_drained_on_return:
  assumes "drained s" and "returned (extract_multiframe w sched filenames par s) \<noteq> None"
  shows "pending (final_sys (extract_multiframe w sched filenames par s)) = []
       \<and> unfinished (final_sys (extract_multiframe w sched filenames par s)) = 0
       \<and> in_flight (workers (final_sys (extract_multiframe w sched filenames par s))) = 0"
proof (cases "batch_setup w filenames par s")
  case (Inl out)
  then have e: "extract_multiframe w sched filenames par s = out"
    by (simp add: extract_multiframe_def)
  then obtain r par1 s1 where o: "out = Returns r par1 s1"
    using assms(2) by (cases out) auto
  show ?thesis
    using batch_setup_Inl_Returns[of w filenames par s r par1 s1] Inl o e assms(1)
    by (simp add: drained_def)
next
  case (Inr p)
  obtain par1 s1 where p: "p = (par1, s1)"
    by (cases p)
  have b: "batch_setup w filenames par s = Inr (par1, s1)"
    using Inr p by simp
  let ?s2 = "exec w par1 sched s1"
  have u: "unfinished ?s2 = 0"
    using assms(2) extract_after_setup[OF b, of sched] by (auto split: if_splits)
  have q: "queue_inv ?s2"
    using setup_invariants[OF assms(1) b] exec_queue_inv by blast
  show ?thesis
    using u q extract_after_setup[OF b, of sched] by (simp add: queue_inv_def)
qed

theorem queue_drained_on_return_witness:
  "drained ex_sys
   \<and> returned (extract_multiframe (ex_world tool_ok) [0, 0, 0] [''a.fits''] ex_params ex_sys)
        \<noteq> None
   \<and> pending (final_sys (extract_multiframe (ex_world tool_ok) [0, 0, 0] [''a.fits'']
                 ex_params ex_sys)) = []
   \<and> unfinished (final_sys (extract_multiframe (ex_world tool_ok) [0, 0, 0] [''a.fits'']
                 ex_params ex_sys)) = 0
   \<and> in_flight (workers (final_sys (extract_multiframe (ex_world tool_ok) [0, 0, 0] [''a.fits'']
                 ex_params ex_sys))) = 0"
proof -
  have r: "returned (extract_multiframe (ex_world tool_ok) [0, 0, 0] [''a.fits''] ex_params ex_sys)
        \<noteq> None"
    using extract_after_setup[OF ex_setup, of tool_ok "[0, 0, 0]"] by (simp add: ex_run_ok)
  show ?thesis
    using ex_drained r queue_drained_on_return[OF ex_drained r] by simp
qed

subsection \<open>Records of failing jobs\<close>

text \<open>
  In a batch of file names with a resolved telescope, started from a drained queue, under
  every schedule: the result list never has more dictionaries than there are file names;
  a thread that has died on a frame has left the dictionary with that frame's file name
  in the result list, a task is then unfinished and the call has not returned; and a call
  that returns, returns the result list with exactly as many dictionaries as file names.
\<close>

lemma result_list_bounded:
  assumes "drained s" and "batch_setup w filenames par s = Inr (par1, s1)"
  shows "length (output (exec w par1 sched s1)) \<le> length filenames
       \<and> (Dead f err \<in> set (workers (exec w par1 sched s1)) \<longrightarrow>
            Some f \<in> set (map fits_filename (output (exec w par1 sched s1)))
            \<and> unfinished (exec w par1 sched s1) \<noteq> 0
            \<and> returned (extract_multiframe w sched filenames par s) = None)
       \<and> (returned (extract_multiframe w sched filenames par s) \<noteq> None \<longrightarrow>
            returned (extract_multiframe w sched filenames par s)
              = Some (RList (output (exec w par1 sched s1)))
            \<and> length (output (exec w par1 sched s1)) = length filenames)"
proof -
  let ?s2 = "exec w par1 sched s1"
  note inv = setup_invariants[OF assms]
  have q: "queue_inv ?s2" using inv exec_queue_inv by blast
  have c: "count_inv (length filenames) ?s2" using inv exec_count_inv by blast
  have n: "named_inv ?s2" using inv exec_named_inv by blast
  note ex = extract_after_setup[OF assms(2), of sched]
  have len: "length (output ?s2) \<le> length filenames"
    using c by (simp add: count_inv_def)
  have dead: "Some f \<in> set (map fits_filename (output ?s2)) \<and> unfinished ?s2 \<noteq> 0
              \<and> returned (extract_multiframe w sched filenames par s) = None"
    if d: "Dead f err \<in> set (workers ?s2)"
  proof -
    have "\<forall>x \<in> set (workers ?s2). has_record (output ?s2) x"
      using n by (simp add: named_inv_def list_all_iff)
    then have "has_record (output ?s2) (Dead f err)"
      using d by blast
    moreover have "unfinished ?s2 \<noteq> 0"
      using q dead_in_flight[OF d] by (simp add: queue_inv_def)
    ultimately show ?thesis using ex by simp
  qed
  have ret: "returned (extract_multiframe w sched filenames par s)
               = Some (RList (output ?s2)) \<and> length (output ?s2) = length filenames"
    if r: "returned (extract_multiframe w sched filenames par s) \<noteq> None"
  proof -
    have u: "unfinished ?s2 = 0"
      using r ex by (auto split: if_splits)
    then have "pending ?s2 = []" "in_flight (workers ?s2) = 0"
      using q by (simp_all add: queue_inv_def)
    then have "got_count (workers ?s2) = 0" "length (pending ?s2) = 0"
      using got_le_in_flight[of "workers ?s2"] by simp_all
    then have "length (output ?s2) = length filenames"
      using c by (simp add: count_inv_def)
    then show ?thesis using u ex by simp
  qed
  show ?thesis using len dead ret by blast
qed

text \<open>When every frame fails, no task is ever marked done.\<close>

lemma wstep_no_job_completes:
  assumes "\<And>b f out e. job_err (run_job w par b f out e) \<noteq> None"
  shows "unfinished (wstep w par i s) = unfinished s"
proof (cases "i < length (workers s)")
  case False
  then show ?thesis by (simp add: wstep_def)
next
  case True
  show ?thesis
  proof (cases "workers s ! i")
    case (Idle b)
    then show ?thesis using True by (simp add: wstep_def split: list.splits)
  next
    case (Got f b)
    then show ?thesis using True by (simp add: wstep_def)
  next
    case (Busy f k b)
    obtain err where e: "job_err (run_job w par b f (output s ! k) (env s)) = Some err"
      using assms[of b f "output s ! k" "env s"] by auto
    show ?thesis
      using wstep_dies[OF True Busy e] by simp
  next
    case (Dead f err)
    then show ?thesis using True by (simp add: wstep_def)
  next
    case Exited
    then show ?thesis using True by (simp add: wstep_def)
  qed
qed

lemma exec_no_job_completes:
  assumes "\<And>b f out e. job_err (run_job w par b f out e) \<noteq> None"
  shows "unfinished (exec w par sched s) = unfinished s"
proof (induction sched arbitrary: s)
  case Nil
  then show ?case by (simp add: exec_Nil)
next
  case (Cons i sched)
  then show ?case
    using wstep_no_job_completes[OF assms, of i s] by (simp add: exec_Cons)
qed

text \<open>
  C1 fails on the code: a job that fails does not leave the batch to return a result
  list without its record. In the batch \<^verbatim>\<open>['a.fits']\<close> whose catalog cannot be read,
  and in the same batch with a tool that cannot be launched, the dictionary with the
  failing file name has been appended to the result list, the thread has died on the
  frame with its task unfinished, and under no schedule does the call return: no result
  list is returned at all.
\<close>

theorem failed_job_blocks_return:
  "workers (final_sys (extract_multiframe (ex_world tool_corrupt) [0, 0, 0] [''a.fits'']
              ex_params ex_sys)) = [Dead ''a.fits'' IOError]
   \<and> map fits_filename (output (final_sys (extract_multiframe (ex_world tool_corrupt) [0, 0, 0]
              [''a.fits''] ex_params ex_sys))) = [Some ''a.fits'']
   \<and> unfinished (final_sys (extract_multiframe (ex_world tool_corrupt) [0, 0, 0] [''a.fits'']
              ex_params ex_sys)) = 1
   \<and> (\<forall>sched. returned (extract_multiframe (ex_world tool_corrupt) sched [''a.fits'']
              ex_params ex_sys) = None)
   \<and> workers (final_sys (extract_multiframe (ex_world tool_absent) [0, 0, 0] [''a.fits'']
              ex_params ex_sys)) = [Dead ''a.fits'' UnboundLocalError]
   \<and> map fits_filename (output (final_sys (extract_multiframe (ex_world tool_absent) [0, 0, 0]
              [''a.fits''] ex_params ex_sys))) = [Some ''a.fits'']
   \<and> (\<forall>sched. returned (extract_multiframe (ex_world tool_absent) sched [''a.fits'']
              ex_params ex_sys) = None)"
proof -
  have tc: "\<And>c. sextractor (ex_world tool_corrupt) c = Runs (Some Corrupt)"
    by (simp add: ex_world_fields tool_corrupt_def)
  have fails: "job_err (run_job (ex_world tool_corrupt) ex_ready b f out e) \<noteq> None"
    for b f out e
    using run_job_corrupt[OF tc ex_busy_fields(6,7), of b f out e] by simp
  have never_c: "returned (extract_multiframe (ex_world tool_corrupt) sched [''a.fits'']
              ex_params ex_sys) = None" for sched
    using exec_no_job_completes[of "ex_world tool_corrupt" ex_ready sched ex_started] fails
      extract_after_setup[OF ex_setup, of tool_corrupt sched]
    by (simp add: ex_started_def)
  have ta: "\<And>c. sextractor (ex_world tool_absent) c = LaunchFails"
    by (simp add: ex_world_fields tool_absent_def)
  have u: "list_all sex_unbound (workers ex_started)"
    by (simp add: ex_started_def)
  have never_a: "returned (extract_multiframe (ex_world tool_absent) sched [''a.fits'']
              ex_params ex_sys) = None" for sched
    using exec_never_completes[OF ta u, of ex_ready sched]
      extract_after_setup[OF ex_setup, of tool_absent sched]
    by (simp add: ex_started_def)
  show ?thesis
    using never_c never_a
      extract_after_setup[OF ex_setup, of tool_corrupt "[0, 0, 0]"]
      extract_after_setup[OF ex_setup, of tool_absent "[0, 0, 0]"]
    by (simp add: ex_run_corrupt ex_run_absent new_out_def)
qed

subsection \<open>A launch that fails\<close>

text \<open>
  C8 fails on the code: in the batch \<^verbatim>\<open>['a.fits']\<close> with a tool that cannot be
  launched, the failure is logged, but the thread goes on to \<^verbatim>\<open>sex.wait()\<close> with
  \<^verbatim>\<open>sex\<close> unbound and dies of UnboundLocalError; it takes no further item,
  \<^verbatim>\<open>task_done\<close> is never called, and under no schedule does the call return.
\<close>

theorem launch_failure_kills_worker:
  "workers (final_sys (extract_multiframe (ex_world tool_absent) [0, 0, 0] [''a.fits'']
              ex_params ex_sys)) = [Dead ''a.fits'' UnboundLocalError]
   \<and> last (logged (env (final_sys (extract_multiframe (ex_world tool_absent) [0, 0, 0]
              [''a.fits''] ex_params ex_sys)))) = Error ''cannot call Source Extractor''
   \<and> pending (final_sys (extract_multiframe (ex_world tool_absent) [0, 0, 0] [''a.fits'']
              ex_params ex_sys)) = []
   \<and> unfinished (final_sys (extract_multiframe (ex_world tool_absent) [0, 0, 0] [''a.fits'']
              ex_params ex_sys)) = 1
   \<and> (\<forall>sched. returned (extract_multiframe (ex_world tool_absent) sched [''a.fits'']
              ex_params ex_sys) = None)"
proof -
  have t: "\<And>c. sextractor (ex_world tool_absent) c = LaunchFails"
    by (simp add: ex_world_fields tool_absent_def)
  have u: "list_all sex_unbound (workers ex_started)"
    by (simp add: ex_started_def)
  have never: "returned (extract_multiframe (ex_world tool_absent) sched [''a.fits'']
              ex_params ex_sys) = None" for sched
    using exec_never_completes[OF t u, of ex_ready sched]
      extract_after_setup[OF ex_setup, of tool_absent sched]
    by (simp add: ex_started_def)
  show ?thesis
    using never extract_after_setup[OF ex_setup, of tool_absent "[0, 0, 0]"]
    by (simp add: ex_run_absent)
qed

end
